theory Spec2Isabelle
  imports Main "HOL-Library.Sublist" "HOL-Library.Word"
begin

section \<open>Python values, exceptions and strings\<close>

text \<open>
  The program is \<^verbatim>\<open>src/main.py\<close>: it asks a hosted model for an image, embeds the
  generation parameters as PNG text chunks, saves the image under \<^verbatim>\<open>/tmp\<close>, uploads it
  to an S3 bucket and deletes the local file.

  A Python \<^verbatim>\<open>str\<close> is modelled as a \<open>string\<close>, one \<open>char\<close> per character; \<^verbatim>\<open>bytes\<close> as a
  list of 8-bit words. A raised exception is a value \<open>Exc cls msg\<close>: its class and the text
  \<^verbatim>\<open>str(e)\<close>. \<open>ClientError code\<close> carries \<^verbatim>\<open>e.response['Error']['Code']\<close>.
  \<open>KeyboardInterrupt\<close> is the one class modelled that does not derive from \<^verbatim>\<open>Exception\<close>.
\<close>

type_synonym bytes = "8 word list"

datatype exc_class =
    ValueError
  | RuntimeError
  | IndexError
  | FileNotFoundError
  | ClientError string
  | KeyboardInterrupt
  | OtherError string

datatype exc = Exc (exc_cls: exc_class) (exc_msg: string)

definition is_Exception :: "exc \<Rightarrow> bool" where
  "is_Exception e = (exc_cls e \<noteq> KeyboardInterrupt)"

definition quote :: char where
  "quote = CHR 0x27"

text \<open>\<^verbatim>\<open>str(n)\<close> for a Python integer: decimal digits, a leading minus sign when negative.\<close>

definition digit_char :: "nat \<Rightarrow> char" where
  "digit_char d = ''0123456789'' ! d"

fun str_nat :: "nat \<Rightarrow> string" where
  "str_nat n = (if n < 10 then [digit_char n] else str_nat (n div 10) @ [digit_char (n mod 10)])"

declare str_nat.simps [simp del]

definition str_int :: "int \<Rightarrow> string" where
  "str_int i = (if i < 0 then CHR ''-'' # str_nat (nat (- i)) else str_nat (nat i))"

text \<open>\<^verbatim>\<open>s.lower()\<close>: the letters A to Z are mapped to a to z; other characters are kept.\<close>

definition lower_char :: "char \<Rightarrow> char" where
  "lower_char c =
     (let n = (of_char c :: nat) in if 65 \<le> n \<and> n \<le> 90 then char_of (n + 32) else c)"

definition lower :: "string \<Rightarrow> string" where
  "lower s = map lower_char s"

text \<open>\<^verbatim>\<open>s.split(sep)\<close> for a one-character separator.\<close>

fun split_on :: "char \<Rightarrow> string \<Rightarrow> string list" where
  "split_on c [] = [[]]"
| "split_on c (x # xs) =
     (if x = c then [] # split_on c xs
      else (case split_on c xs of [] \<Rightarrow> [[x]] | p # ps \<Rightarrow> (x # p) # ps))"

section \<open>Dates\<close>

text \<open>
  A value of \<^verbatim>\<open>datetime.now()\<close>. \<^verbatim>\<open>strftime\<close> pads \<^verbatim>\<open>%Y\<close> to four digits and
  \<^verbatim>\<open>%m\<close>, \<^verbatim>\<open>%d\<close> to two; \<^verbatim>\<open>isoformat()\<close> prints the microseconds only when they are
  not zero.
\<close>

record datetime =
  year :: nat
  month :: nat
  day :: nat
  hour :: nat
  minute :: nat
  second :: nat
  microsecond :: nat

definition zfill :: "nat \<Rightarrow> string \<Rightarrow> string" where
  "zfill n s = replicate (n - length s) CHR ''0'' @ s"

definition strftime_Y :: "datetime \<Rightarrow> string" where
  "strftime_Y t = zfill 4 (str_nat (year t))"

definition strftime_m :: "datetime \<Rightarrow> string" where
  "strftime_m t = zfill 2 (str_nat (month t))"

definition strftime_d :: "datetime \<Rightarrow> string" where
  "strftime_d t = zfill 2 (str_nat (day t))"

definition strftime_Ymd :: "datetime \<Rightarrow> string" where
  "strftime_Ymd t = strftime_Y t @ ''-'' @ strftime_m t @ ''-'' @ strftime_d t"

definition isoformat :: "datetime \<Rightarrow> string" where
  "isoformat t =
     strftime_Ymd t @ ''T'' @ zfill 2 (str_nat (hour t)) @ '':'' @ zfill 2 (str_nat (minute t))
       @ '':'' @ zfill 2 (str_nat (second t))
       @ (if microsecond t \<noteq> 0 then ''.'' @ zfill 6 (str_nat (microsecond t)) else [])"

text \<open>
  A date that the clock can return. The year starts at 1000: below that the C library
  decides whether \<^verbatim>\<open>%Y\<close> is padded.
\<close>

definition valid_datetime :: "datetime \<Rightarrow> bool" where
  "valid_datetime t =
     (1000 \<le> year t \<and> year t \<le> 9999 \<and> 1 \<le> month t \<and> month t \<le> 12
      \<and> 1 \<le> day t \<and> day t \<le> 31)"

section \<open>Paths\<close>

text \<open>
  \<^verbatim>\<open>Path(s).name\<close> on a POSIX system: the path is split at the slashes, empty components and
  \<^verbatim>\<open>.\<close> components are dropped, and the name is the last component left (the empty string
  when none is left). \<^verbatim>\<open>str(Path(d) / name)\<close> for such a name adds nothing when the name is
  empty.
\<close>

definition path_parts :: "string \<Rightarrow> string list" where
  "path_parts s = filter (\<lambda>p. p \<noteq> [] \<and> p \<noteq> ''.'') (split_on CHR ''/'' s)"

definition path_name :: "string \<Rightarrow> string" where
  "path_name s = (case path_parts s of [] \<Rightarrow> [] | p # ps \<Rightarrow> last (p # ps))"

definition path_join :: "string \<Rightarrow> string \<Rightarrow> string" where
  "path_join d name = (if name = [] then d else d @ ''/'' @ name)"

section \<open>The outside world\<close>

text \<open>
  Values of the job description, the shapes the provider's client can return, and the
  response of \<^verbatim>\<open>requests.get\<close>. A float is a value of an arbitrary type \<open>'f\<close>; its
  \<^verbatim>\<open>str\<close> is a parameter of the environment.
\<close>

datatype 'f py_val = PStr string | PFloat 'f | PInt int

type_synonym 'f job = "string \<rightharpoonup> 'f py_val"

datatype py_out =
    Readable "exc + bytes"
  | PyStr string
  | PyList "py_out list"
  | Other string

record http_response =
  status_error :: "exc option"
  content :: bytes

definition raise_for_status :: "http_response \<Rightarrow> exc option" where
  "raise_for_status r = status_error r"

type_synonym pnginfo = "(string \<times> string) list"

record extra_args =
  ContentType :: string
  Metadata :: "string \<rightharpoonup> string"
  CacheControl :: string

datatype level = INFO | ERROR

text \<open>
  The environment holds what the program reads from outside: the token variable, the
  outcome of each external call as a function of its arguments, and the clock as the
  sequence of values that successive calls of \<^verbatim>\<open>datetime.now()\<close> return.
\<close>

record ('f, 'img) env =
  replicate_api_token :: "string option"
  client_run :: "string \<Rightarrow> 'f job \<Rightarrow> exc + py_out"
  requests_get :: "string \<Rightarrow> exc + http_response"
  image_open :: "bytes \<Rightarrow> exc + 'img"
  image_save :: "string \<Rightarrow> exc option"
  boto3_client :: "string option \<Rightarrow> exc option"
  upload_file :: "string \<Rightarrow> string \<Rightarrow> string \<Rightarrow> extra_args \<Rightarrow> exc option"
  clock :: "nat \<Rightarrow> datetime"
  float_str :: "'f \<Rightarrow> string"

text \<open>
  The world is what the program changes: the files that exist, the log, the number of
  clock reads so far, and the calls made to the provider and to the storage service.
\<close>

record ('f, 'img) world =
  fs :: "string \<rightharpoonup> ('img \<times> pnginfo)"
  logs :: "(level \<times> string) list"
  ticks :: nat
  provider_calls :: "(string \<times> 'f job) list"
  upload_calls :: "(string \<times> string \<times> string \<times> extra_args) list"

definition log_info :: "('f, 'img) world \<Rightarrow> string \<Rightarrow> ('f, 'img) world" where
  "log_info w m = w\<lparr>logs := logs w @ [(INFO, m)]\<rparr>"

definition log_error :: "('f, 'img) world \<Rightarrow> string \<Rightarrow> ('f, 'img) world" where
  "log_error w m = w\<lparr>logs := logs w @ [(ERROR, m)]\<rparr>"

definition now :: "('f, 'img) env \<Rightarrow> ('f, 'img) world \<Rightarrow> datetime \<times> ('f, 'img) world" where
  "now env w = (clock env (ticks w), w\<lparr>ticks := Suc (ticks w)\<rparr>)"

section \<open>Generation request and response\<close>

definition MODEL_ID :: string where
  "MODEL_ID = ''stability-ai/stable-diffusion-3.5-large''"

definition get_replicate_token :: "('f, 'img) env \<Rightarrow> exc + string" where
  "get_replicate_token env =
     (case replicate_api_token env of
        None \<Rightarrow> Inl (Exc ValueError
          ''Replicate API token not found. Set REPLICATE_API_TOKEN in your .env file or environment.'')
      | Some token \<Rightarrow>
          if token = [] then Inl (Exc ValueError
            ''Replicate API token not found. Set REPLICATE_API_TOKEN in your .env file or environment.'')
          else Inr token)"

text \<open>
  Lines 77 to 79 of \<^verbatim>\<open>generate_image_with_replicate\<close>: the greatest common divisor is
  taken of \<^verbatim>\<open>max(width,1)\<close> and \<^verbatim>\<open>max(height,1)\<close>, the quotients are floor divisions of
  the dimensions themselves.
\<close>

definition aspect_ratio :: "int \<Rightarrow> int \<Rightarrow> string" where
  "aspect_ratio width height =
     (let g = gcd (max width 1) (max height 1)
      in str_int (width div g) @ '':'' @ str_int (height div g))"

text \<open>Lines 81 to 89: the job description, a dictionary. The steps are not an input of it.\<close>

definition build_inputs ::
  "string \<Rightarrow> 'f \<Rightarrow> int option \<Rightarrow> int \<Rightarrow> int \<Rightarrow> string \<Rightarrow> 'f job" where
  "build_inputs prompt guidance seed width height output_format =
     (let ar = aspect_ratio width height;
          inputs = [''prompt'' \<mapsto> PStr prompt, ''cfg'' \<mapsto> PFloat guidance,
                    ''output_format'' \<mapsto> PStr output_format];
          inputs1 = (case seed of None \<Rightarrow> inputs | Some s \<Rightarrow> inputs(''seed'' \<mapsto> PInt s));
          inputs2 = (if ar \<noteq> ''1:1'' then inputs1(''aspect_ratio'' \<mapsto> PStr ar) else inputs1)
      in inputs2)"

definition format_val :: "('f, 'img) env \<Rightarrow> 'f py_val \<Rightarrow> string" where
  "format_val env v = (case v of PStr s \<Rightarrow> s | PFloat x \<Rightarrow> float_str env x | PInt i \<Rightarrow> str_int i)"

text \<open>
  Lines 96 to 106: the value returned by the client is resolved to one payload and
  decoded. \<^verbatim>\<open>out[0]\<close> on an empty list raises \<^verbatim>\<open>IndexError\<close>; a value that has neither
  a \<^verbatim>\<open>read\<close> attribute nor is a string raises \<^verbatim>\<open>RuntimeError\<close> with its type.
\<close>

definition first_or_self :: "py_out \<Rightarrow> exc + py_out" where
  "first_or_self out =
     (case out of
        PyList xs \<Rightarrow>
          (case xs of [] \<Rightarrow> Inl (Exc IndexError ''list index out of range'') | x # _ \<Rightarrow> Inr x)
      | _ \<Rightarrow> Inr out)"

definition unexpected_output :: "string \<Rightarrow> exc" where
  "unexpected_output ty =
     Exc RuntimeError (''Unexpected output type: <class '' @ [quote] @ ty @ [quote] @ ''>'')"

definition read_payload :: "('f, 'img) env \<Rightarrow> py_out \<Rightarrow> exc + bytes" where
  "read_payload env fo =
     (case fo of
        Readable r \<Rightarrow> r
      | PyStr url \<Rightarrow>
          (case requests_get env url of
             Inl e \<Rightarrow> Inl e
           | Inr r \<Rightarrow> (case raise_for_status r of Some e \<Rightarrow> Inl e | None \<Rightarrow> Inr (content r)))
      | PyList _ \<Rightarrow> Inl (unexpected_output ''list'')
      | Other ty \<Rightarrow> Inl (unexpected_output ty))"

definition normalize_response :: "('f, 'img) env \<Rightarrow> py_out \<Rightarrow> exc + 'img" where
  "normalize_response env out =
     (case first_or_self out of
        Inl e \<Rightarrow> Inl e
      | Inr fo \<Rightarrow>
          (case read_payload env fo of
             Inl e \<Rightarrow> Inl e
           | Inr data \<Rightarrow> image_open env data))"

text \<open>Lines 107 to 113: the handler of \<^verbatim>\<open>except Exception as e\<close>.\<close>

definition provider_except ::
  "exc \<Rightarrow> ('f, 'img) world \<Rightarrow> (exc + 'img) \<times> ('f, 'img) world" where
  "provider_except e w =
     (let msg = exc_msg e in
      if sublist ''404'' msg then
        (Inl e, log_error w (''Model slug not found: use '' @ [quote]
                              @ ''stability-ai/stable-diffusion-3.5-large'' @ [quote]))
      else if sublist ''401'' msg \<or> sublist ''unauthorized'' (lower msg) then
        (Inl (Exc ValueError ''Invalid Replicate token (REPLICATE_API_TOKEN).''), w)
      else (Inl e, w))"

definition generate_image_with_replicate ::
  "('f, 'img) env \<Rightarrow> string \<Rightarrow> int \<Rightarrow> 'f \<Rightarrow> int option \<Rightarrow> int \<Rightarrow> int \<Rightarrow> string
     \<Rightarrow> ('f, 'img) world \<Rightarrow> (exc + 'img) \<times> ('f, 'img) world" where
  "generate_image_with_replicate env prompt steps guidance seed width height output_format w =
     (case get_replicate_token env of
        Inl e \<Rightarrow> (Inl e, w)
      | Inr token \<Rightarrow>
          let inputs = build_inputs prompt guidance seed width height output_format;
              w1 = log_info w (''Generating with cfg='' @ float_str env guidance
                     @ '', aspect_ratio=''
                     @ (case inputs ''aspect_ratio'' of
                          None \<Rightarrow> ''1:1'' | Some v \<Rightarrow> format_val env v));
              w2 = w1\<lparr>provider_calls := provider_calls w1 @ [(MODEL_ID, inputs)]\<rparr>;
              r = (case client_run env MODEL_ID inputs of
                     Inl e \<Rightarrow> Inl e
                   | Inr out \<Rightarrow> normalize_response env out)
          in (case r of
                Inr img \<Rightarrow> (Inr img, w2)
              | Inl e \<Rightarrow> if is_Exception e then provider_except e w2 else (Inl e, w2)))"

section \<open>Storage key and metadata\<close>

definition create_filename_with_date ::
  "('f, 'img) env \<Rightarrow> string \<Rightarrow> ('f, 'img) world \<Rightarrow> string \<times> ('f, 'img) world" where
  "create_filename_with_date env pre w =
     (let (t, w1) = now env w;
          timestamp = strftime_Ymd t
      in (pre @ ''_'' @ timestamp @ ''.png'', w1))"

definition create_s3_key_organized ::
  "('f, 'img) env \<Rightarrow> string \<Rightarrow> ('f, 'img) world \<Rightarrow> string \<times> ('f, 'img) world" where
  "create_s3_key_organized env base_path w =
     (let (t, w1) = now env w;
          y = strftime_Y t;
          m = strftime_m t;
          d = strftime_d t;
          (filename, w2) = create_filename_with_date env ''sd3'' w1
      in (base_path @ ''/'' @ y @ ''/'' @ m @ ''/'' @ d @ ''/'' @ filename, w2))"

text \<open>
  \<^verbatim>\<open>if seed:\<close> holds for an integer that is neither \<^verbatim>\<open>None\<close> nor zero. A
  \<^verbatim>\<open>PngInfo\<close> is the list of its text chunks, in the order they were added.
\<close>

definition add_text :: "pnginfo \<Rightarrow> string \<Rightarrow> string \<Rightarrow> pnginfo" where
  "add_text metadata k v = metadata @ [(k, v)]"

definition add_metadata_to_image ::
  "('f, 'img) env \<Rightarrow> 'img \<Rightarrow> string \<Rightarrow> int \<Rightarrow> 'f \<Rightarrow> int option \<Rightarrow> ('f, 'img) world
     \<Rightarrow> ('img \<times> pnginfo) \<times> ('f, 'img) world" where
  "add_metadata_to_image env img prompt steps guidance seed w =
     (let m0 = [];
          m1 = add_text m0 ''prompt'' prompt;
          m2 = add_text m1 ''steps'' (str_int steps);
          m3 = add_text m2 ''guidance_scale'' (float_str env guidance);
          m4 = (case seed of
                  None \<Rightarrow> m3
                | Some s \<Rightarrow> if s \<noteq> 0 then add_text m3 ''seed'' (str_int s) else m3);
          (t, w1) = now env w;
          m5 = add_text m4 ''generated_at'' (isoformat t);
          m6 = add_text m5 ''model'' ''stable-diffusion-3.5-large'';
          m7 = add_text m6 ''generator'' ''replicate-client''
      in ((img, m7), w1))"

section \<open>Upload\<close>

text \<open>
  Lines 177 to 186 of \<^verbatim>\<open>upload_to_s3\<close>: the metadata dictionary of the stored object,
  given the value \<open>t\<close> that \<^verbatim>\<open>datetime.now()\<close> returned there.
\<close>

definition s3_metadata_of ::
  "('f, 'img) env \<Rightarrow> string \<Rightarrow> int \<Rightarrow> 'f \<Rightarrow> int option \<Rightarrow> datetime \<Rightarrow> (string \<rightharpoonup> string)" where
  "s3_metadata_of env prompt steps guidance seed t =
     (let s3_metadata = [''prompt'' \<mapsto> take 1024 prompt,
                         ''steps'' \<mapsto> str_int steps,
                         ''guidance'' \<mapsto> float_str env guidance,
                         ''generated-at'' \<mapsto> isoformat t,
                         ''model'' \<mapsto> ''stable-diffusion-3.5-large'',
                         ''generator'' \<mapsto> ''replicate-client'']
      in (case seed of
            None \<Rightarrow> s3_metadata
          | Some s \<Rightarrow> if s \<noteq> 0 then s3_metadata(''seed'' \<mapsto> str_int s) else s3_metadata))"

record upload_result =
  r_s3_uri :: string
  r_public_url :: string
  r_key :: string
  r_filename :: string
  r_bucket :: string
  r_region :: string
  r_is_public :: bool
  r_generated_at :: string
  r_prompt :: string
  r_metadata :: "string \<rightharpoonup> string"

definition upload_error_log :: "exc \<Rightarrow> string \<Rightarrow> string" where
  "upload_error_log e bucket =
     (case exc_cls e of
        ClientError error_code \<Rightarrow>
          if error_code = ''NoSuchBucket'' then
            ''Bucket '' @ [quote] @ bucket @ [quote] @ '' does not exist''
          else if error_code = ''AccessDenied'' then
            ''Access denied. Check AWS credentials and bucket permissions''
          else ''S3 upload failed: '' @ exc_msg e
      | _ \<Rightarrow> [])"

definition is_ClientError :: "exc \<Rightarrow> bool" where
  "is_ClientError e = (case exc_cls e of ClientError _ \<Rightarrow> True | _ \<Rightarrow> False)"

definition upload_to_s3 ::
  "('f, 'img) env \<Rightarrow> string \<Rightarrow> string \<Rightarrow> string \<Rightarrow> string \<Rightarrow> int \<Rightarrow> 'f \<Rightarrow> int option
     \<Rightarrow> string option \<Rightarrow> bool \<Rightarrow> ('f, 'img) world
     \<Rightarrow> (exc + upload_result) \<times> ('f, 'img) world" where
  "upload_to_s3 env local_path bucket key prompt steps guidance seed region public w =
     (case boto3_client env region of
        Some e \<Rightarrow> (Inl e, w)
      | None \<Rightarrow>
          let region1 = (case region of
                           None \<Rightarrow> ''eu-central-1''
                         | Some r \<Rightarrow> if r = [] then ''eu-central-1'' else r);
              (t, w1) = now env w;
              s3_metadata = s3_metadata_of env prompt steps guidance seed t;
              extra = \<lparr>ContentType = ''image/png'', Metadata = s3_metadata,
                       CacheControl = ''public, max-age=31536000''\<rparr>;
              w2 = log_info w1 (''Uploading to s3://'' @ bucket @ ''/'' @ key);
              w3 = w2\<lparr>upload_calls := upload_calls w2 @ [(local_path, bucket, key, extra)]\<rparr>
          in (case upload_file env local_path bucket key extra of
                Some e \<Rightarrow>
                  if is_ClientError e then (Inl e, log_error w3 (upload_error_log e bucket))
                  else (Inl e, w3)
              | None \<Rightarrow>
                  let s3_uri = ''s3://'' @ bucket @ ''/'' @ key;
                      public_url = ''https://'' @ bucket @ ''.s3.'' @ region1
                                     @ ''.amazonaws.com/'' @ key;
                      (t2, w4) = now env w3;
                      result = \<lparr>r_s3_uri = s3_uri, r_public_url = public_url, r_key = key,
                                r_filename = path_name key, r_bucket = bucket,
                                r_region = region1, r_is_public = public,
                                r_generated_at = isoformat t2, r_prompt = prompt,
                                r_metadata = s3_metadata\<rparr>;
                      w5 = log_info w4 (''Upload successful: '' @ s3_uri);
                      w6 = (if public then log_info w5 (''Public URL: '' @ public_url) else w5)
                  in (Inr result, w6)))"

section \<open>The command\<close>

text \<open>
  The parsed command line. \<open>arg_bucket\<close> and \<open>arg_region\<close> already hold the defaults read
  from the process environment. What \<^verbatim>\<open>main\<close> prints on standard output is not modelled.
\<close>

record 'f args =
  arg_bucket :: "string option"
  arg_prompt :: string
  arg_key :: "string option"
  arg_organized :: bool
  arg_steps :: int
  arg_guidance :: 'f
  arg_seed :: "int option"
  arg_width :: int
  arg_height :: int
  arg_region :: "string option"
  arg_public :: bool

text \<open>Lines 286 to 294: \<^verbatim>\<open>if args.key:\<close> holds for a key that is given and not empty.\<close>

definition determine_s3_key ::
  "('f, 'img) env \<Rightarrow> 'f args \<Rightarrow> ('f, 'img) world \<Rightarrow> string \<times> ('f, 'img) world" where
  "determine_s3_key env args w =
     (let generated = (if arg_organized args then create_s3_key_organized env ''images'' w
                       else create_filename_with_date env ''sd3'' w)
      in (case arg_key args of
            None \<Rightarrow> generated
          | Some k \<Rightarrow> if k = [] then generated else (k, w)))"

text \<open>Line 297: \<^verbatim>\<open>Path("/tmp") / Path(s3_key).name\<close>, as the string of the path.\<close>

definition tmp_path_of :: "string \<Rightarrow> string" where
  "tmp_path_of s3_key = path_join ''/tmp'' (path_name s3_key)"

definition unlink :: "string \<Rightarrow> ('f, 'img) world \<Rightarrow> (exc + unit) \<times> ('f, 'img) world" where
  "unlink p w =
     (if fs w p \<noteq> None then (Inr (), w\<lparr>fs := (fs w)(p := None)\<rparr>)
      else (Inl (Exc FileNotFoundError
                  (''[Errno 2] No such file or directory: '' @ [quote] @ p @ [quote])), w))"

text \<open>Lines 262 to 338: the body of the \<^verbatim>\<open>try\<close> statement of \<^verbatim>\<open>main\<close>.\<close>

definition main_body ::
  "('f, 'img) env \<Rightarrow> 'f args \<Rightarrow> string \<Rightarrow> ('f, 'img) world
     \<Rightarrow> (exc + upload_result) \<times> ('f, 'img) world" where
  "main_body env args bucket w =
     (case get_replicate_token env of
        Inl e \<Rightarrow> (Inl e, w)
      | Inr _ \<Rightarrow>
          let w1 = log_info w ([CHR 0xE2, CHR 0x9C, CHR 0x93] @ '' Replicate token found'')
          in (case generate_image_with_replicate env (arg_prompt args) (arg_steps args)
                     (arg_guidance args) (arg_seed args) (arg_width args) (arg_height args)
                     ''png'' w1 of
                (Inl e, w2) \<Rightarrow> (Inl e, w2)
              | (Inr img, w2) \<Rightarrow>
                  let ((img1, png_metadata), w3) =
                        add_metadata_to_image env img (arg_prompt args) (arg_steps args)
                          (arg_guidance args) (arg_seed args) w2;
                      (s3_key, w4) = determine_s3_key env args w3;
                      tmp_path = tmp_path_of s3_key
                  in (case image_save env tmp_path of
                        Some e \<Rightarrow> (Inl e, w4)
                      | None \<Rightarrow>
                          let w5 = w4\<lparr>fs := (fs w4)(tmp_path \<mapsto> (img1, png_metadata))\<rparr>;
                              w6 = log_info w5 (''Image saved temporarily to '' @ tmp_path)
                          in (case upload_to_s3 env tmp_path bucket s3_key (arg_prompt args)
                                     (arg_steps args) (arg_guidance args) (arg_seed args)
                                     (arg_region args) (arg_public args) w6 of
                                (Inl e, w7) \<Rightarrow> (Inl e, w7)
                              | (Inr result, w7) \<Rightarrow>
                                  (case unlink tmp_path w7 of
                                     (Inl e, w8) \<Rightarrow> (Inl e, w8)
                                   | (Inr _, w8) \<Rightarrow>
                                       (Inr result, log_info w8 ''Temporary file deleted''))))))"

text \<open>
  \<^verbatim>\<open>main\<close> returns the exit status: 2 from \<^verbatim>\<open>parser.error\<close> when no bucket is given,
  0 on success, 130 on \<^verbatim>\<open>KeyboardInterrupt\<close>, 1 on any other exception.
\<close>

definition main :: "('f, 'img) env \<Rightarrow> 'f args \<Rightarrow> ('f, 'img) world \<Rightarrow> int \<times> ('f, 'img) world" where
  "main env args w =
     (case arg_bucket args of
        None \<Rightarrow> (2, w)
      | Some bucket \<Rightarrow>
          if bucket = [] then (2, w)
          else
            let w1 = log_info w (''Using bucket: '' @ bucket);
                w2 = (if arg_region args = None \<or> arg_region args = Some [] then
                        log_info w1
                          ''No region via args/env; will fall back to eu-central-1 inside S3 client''
                      else w1)
            in (case main_body env args bucket w2 of
                  (Inr result, w3) \<Rightarrow> (0, w3)
                | (Inl e, w3) \<Rightarrow>
                    if exc_cls e = KeyboardInterrupt then (130, log_info w3 ''Interrupted by user'')
                    else (1, log_error w3 (''Fatal error: '' @ exc_msg e))))"

section \<open>Example runs\<close>

text \<open>
  A concrete environment for evaluating the program: floats are carried as their text,
  an image is its bytes, the token is set, every call of the clock returns
  2025-10-13 14:30:52, saving and creating the storage client succeed. The provider's
  answer, the answer to an HTTP GET and the outcome of the upload are its parameters.
\<close>

definition demo_time :: datetime where
  "demo_time = \<lparr>year = 2025, month = 10, day = 13, hour = 14, minute = 30, second = 52,
                 microsecond = 0\<rparr>"

definition demo_env ::
  "(exc + py_out) \<Rightarrow> (exc + http_response) \<Rightarrow> exc option \<Rightarrow> (string, bytes) env" where
  "demo_env out got up =
     \<lparr>replicate_api_token = Some ''r8_token'',
      client_run = (\<lambda>model inputs. out),
      requests_get = (\<lambda>url. got),
      image_open = (\<lambda>data. Inr data),
      image_save = (\<lambda>path. None),
      boto3_client = (\<lambda>region. None),
      upload_file = (\<lambda>path bucket key extra. up),
      clock = (\<lambda>n. demo_time),
      float_str = (\<lambda>x. x)\<rparr>"

definition demo_response :: "exc + http_response" where
  "demo_response = Inr \<lparr>status_error = None, content = [1, 2, 3]\<rparr>"

definition demo_world :: "(string, bytes) world" where
  "demo_world = \<lparr>fs = Map.empty, logs = [], ticks = 0, provider_calls = [], upload_calls = []\<rparr>"

definition demo_args :: "string args" where
  "demo_args =
     \<lparr>arg_bucket = Some ''my-bucket'', arg_prompt = ''a red fox'', arg_key = None,
      arg_organized = False, arg_steps = 28, arg_guidance = ''3.5'', arg_seed = None,
      arg_width = 1024, arg_height = 1024, arg_region = None, arg_public = False\<rparr>"

text \<open>An error raised by the provider's client, with the text \<^verbatim>\<open>str(e)\<close>.\<close>

definition demo_error :: "string \<Rightarrow> exc" where
  "demo_error m = Exc (OtherError ''ReplicateError'') m"

section \<open>Properties\<close>

subsection \<open>Decimal strings\<close>

lemma digit_char_in: "d < 10 \<Longrightarrow> digit_char d \<in> set ''0123456789''"
  unfolding digit_char_def by (rule nth_mem) simp

lemma str_nat_digits: "set (str_nat n) \<subseteq> set ''0123456789''"
proof (induction n rule: str_nat.induct)
  case (1 n)
  show ?case
  proof (cases "n < 10")
    case True
    then have "str_nat n = [digit_char n]" by (subst str_nat.simps) simp
    then show ?thesis using digit_char_in[OF True] by simp
  next
    case False
    then have e: "str_nat n = str_nat (n div 10) @ [digit_char (n mod 10)]"
      by (subst str_nat.simps) simp
    have "n mod 10 < 10" by simp
    from digit_char_in[OF this] 1[OF False] show ?thesis
      unfolding e by simp
  qed
qed

lemma str_nat_not_Nil: "str_nat n \<noteq> []"
  by (subst str_nat.simps) simp

lemma str_nat_small: "n < 10 \<Longrightarrow> str_nat n = [digit_char n]"
  by (subst str_nat.simps) simp

lemma str_nat_big: "\<not> n < 10 \<Longrightarrow> str_nat n = str_nat (n div 10) @ [digit_char (n mod 10)]"
  by (subst str_nat.simps) simp

lemma digit_char_eq_1: "d < 10 \<Longrightarrow> digit_char d = CHR ''1'' \<longleftrightarrow> d = 1"
proof -
  assume "d < 10"
  then have "d = 0 \<or> d = 1 \<or> d = 2 \<or> d = 3 \<or> d = 4 \<or> d = 5 \<or> d = 6 \<or> d = 7 \<or> d = 8 \<or> d = 9"
    by presburger
  then show ?thesis by (elim disjE) (simp_all add: digit_char_def)
qed

lemma str_nat_eq_1: "str_nat n = ''1'' \<longleftrightarrow> n = 1"
proof (cases "n < 10")
  case True
  then show ?thesis by (simp add: str_nat_small digit_char_eq_1)
next
  case False
  obtain c cs where "str_nat (n div 10) = c # cs"
    using str_nat_not_Nil[of "n div 10"] by (cases "str_nat (n div 10)") auto
  then have "length (str_nat n) \<ge> 2"
    using False by (simp add: str_nat_big)
  then have "str_nat n \<noteq> ''1''" by auto
  with False show ?thesis by auto
qed

lemma colon_notin_str_nat: "CHR '':'' \<notin> set (str_nat n)"
  using str_nat_digits[of n] by auto

lemma str_int_nonpos_ne_1: "i \<le> 0 \<Longrightarrow> str_int i \<noteq> ''1''"
  by (simp add: str_int_def str_nat_eq_1)

lemma str_int_pos_eq_1: "0 < i \<Longrightarrow> str_int i = ''1'' \<longleftrightarrow> i = 1"
  by (auto simp: str_int_def str_nat_eq_1)

lemma colon_notin_str_int: "CHR '':'' \<notin> set (str_int i)"
  using colon_notin_str_nat by (simp add: str_int_def)

lemma ratio_eq_11:
  "str_int a @ '':'' @ str_int b = ''1:1'' \<longleftrightarrow> str_int a = ''1'' \<and> str_int b = ''1''"
proof -
  have "str_int a @ CHR '':'' # str_int b = ''1'' @ CHR '':'' # ''1''
          \<longleftrightarrow> str_int a = ''1'' \<and> str_int b = ''1''"
    by (rule append_Cons_eq_iff) (use colon_notin_str_int in auto)
  then show ?thesis by simp
qed

subsection \<open>Aspect ratio and job description\<close>

lemma str_int_eq_1: "str_int i = ''1'' \<longleftrightarrow> i = 1"
  using str_int_nonpos_ne_1[of i] str_int_pos_eq_1[of i] by (cases "0 < i") auto

lemma aspect_ratio_pos:
  "0 < w \<Longrightarrow> 0 < h \<Longrightarrow>
     aspect_ratio w h = str_int (w div gcd w h) @ '':'' @ str_int (h div gcd w h)"
proof -
  assume "0 < w" "0 < h"
  then have "max w 1 = w" "max h 1 = h" by simp_all
  then show ?thesis by (simp add: aspect_ratio_def Let_def)
qed

lemma aspect_ratio_reduce:
  assumes "0 < w" "0 < h" "0 < k" "k dvd w" "k dvd h"
  shows "aspect_ratio w h = aspect_ratio (w div k) (h div k)"
proof -
  from assms obtain a b where w: "w = k * a" and h: "h = k * b" unfolding dvd_def by blast
  from assms w h have a: "0 < a" and b: "0 < b" by (simp_all add: zero_less_mult_iff)
  have g: "gcd (k * a) (k * b) = k * gcd a b"
    using gcd_mult_distrib_int[of k a b] \<open>0 < k\<close> by simp
  have "aspect_ratio (k * a) (k * b) = aspect_ratio a b"
    using a b \<open>0 < k\<close> by (simp add: aspect_ratio_pos g)
  then show ?thesis using \<open>0 < k\<close> by (simp add: w h)
qed

lemma aspect_ratio_11_iff:
  assumes "0 < w" "0 < h"
  shows "aspect_ratio w h = ''1:1'' \<longleftrightarrow> w = h"
proof -
  let ?g = "gcd w h"
  have gw: "?g * (w div ?g) = w" and gh: "?g * (h div ?g) = h" by simp_all
  have "aspect_ratio w h = ''1:1'' \<longleftrightarrow> w div ?g = 1 \<and> h div ?g = 1"
    unfolding aspect_ratio_pos[OF assms] ratio_eq_11 str_int_eq_1 ..
  also have "\<dots> \<longleftrightarrow> w = h"
  proof
    assume "w div ?g = 1 \<and> h div ?g = 1"
    with gw gh show "w = h" by (metis mult.right_neutral)
  next
    assume "w = h"
    with assms show "w div ?g = 1 \<and> h div ?g = 1" by simp
  qed
  finally show ?thesis .
qed

lemma aspect_ratio_nonpos:
  assumes "w \<le> 0 \<or> h \<le> 0"
  shows "aspect_ratio w h = str_int w @ '':'' @ str_int h"
    and "aspect_ratio w h \<noteq> ''1:1''"
proof -
  have "max w 1 = 1 \<or> max h 1 = 1" using assms by auto
  then have g: "gcd (max w 1) (max h 1) = 1" by auto
  show e: "aspect_ratio w h = str_int w @ '':'' @ str_int h"
    by (simp add: aspect_ratio_def Let_def g del: max.absorb1 max.absorb2 max.absorb3 max.absorb4)
  show "aspect_ratio w h \<noteq> ''1:1''"
    unfolding e ratio_eq_11 str_int_eq_1 using assms by auto
qed

lemma aspect_ratio_coprime:
  "0 < (w::int) \<Longrightarrow> 0 < h \<Longrightarrow> coprime (w div gcd w h) (h div gcd w h)"
  using div_gcd_coprime[of w h] by simp

lemma build_inputs_prompt:
  "build_inputs p g s w h f ''prompt'' = Some (PStr p)"
  by (simp add: build_inputs_def Let_def split: option.split)

lemma build_inputs_cfg:
  "build_inputs p g s w h f ''cfg'' = Some (PFloat g)"
  by (simp add: build_inputs_def Let_def split: option.split)

lemma build_inputs_output_format:
  "build_inputs p g s w h f ''output_format'' = Some (PStr f)"
  by (simp add: build_inputs_def Let_def split: option.split)

lemma build_inputs_seed:
  "build_inputs p g s w h f ''seed'' = map_option PInt s"
  by (simp add: build_inputs_def Let_def split: option.split)

lemma build_inputs_aspect_ratio:
  "build_inputs p g s w h f ''aspect_ratio'' =
     (if aspect_ratio w h = ''1:1'' then None else Some (PStr (aspect_ratio w h)))"
  by (simp add: build_inputs_def Let_def split: option.split)

lemma build_inputs_dom:
  "dom (build_inputs p g s w h f) =
     {''prompt'', ''cfg'', ''output_format''}
       \<union> (case s of None \<Rightarrow> {} | Some _ \<Rightarrow> {''seed''})
       \<union> (if aspect_ratio w h = ''1:1'' then {} else {''aspect_ratio''})"
  by (auto simp: build_inputs_def Let_def split: option.split if_splits)

lemma build_inputs_steps:
  "build_inputs p g s w h f ''steps'' = None"
  by (simp add: build_inputs_def Let_def split: option.split)

lemma gcd_1024_768: "gcd (1024::int) 768 = 256"
  by code_simp


subsection \<open>Non-positive dimensions\<close>

lemma provider_except_calls:
  "provider_calls (snd (provider_except e w)) = provider_calls w"
  by (simp add: provider_except_def Let_def log_error_def)

lemma generate_provider_calls:
  assumes "get_replicate_token env = Inr tok"
  shows "provider_calls (snd (generate_image_with_replicate env p st g s wd ht f w))
           = provider_calls w @ [(MODEL_ID, build_inputs p g s wd ht f)]"
  using assms
  by (simp add: generate_image_with_replicate_def Let_def log_info_def provider_except_calls
      split: sum.split)

lemma generate_success:
  assumes "get_replicate_token env = Inr tok"
    and "client_run env MODEL_ID (build_inputs p g s wd ht f) = Inr out"
    and "normalize_response env out = Inr img"
  shows "fst (generate_image_with_replicate env p st g s wd ht f w) = Inr img"
  using assms by (simp add: generate_image_with_replicate_def Let_def)

text \<open>
  Claim C4, as the code has it. A width or height that is not positive raises no error:
  the divisor is the greatest common divisor of \<^verbatim>\<open>max(width,1)\<close> and \<^verbatim>\<open>max(height,1)\<close>,
  which is 1, so the job description carries the aspect ratio \<open>width:height\<close> with the
  dimensions as they were given. With a token present the job is sent to the provider
  once, and when the provider's answer decodes to an image that image is returned.
\<close>

theorem nonpositive_dimensions_are_sent:
  assumes "width \<le> 0 \<or> height \<le> 0"
    and "get_replicate_token env = Inr tok"
  shows "build_inputs prompt guidance seed width height fmt ''aspect_ratio''
           = Some (PStr (str_int width @ '':'' @ str_int height))
    \<and> provider_calls (snd (generate_image_with_replicate env prompt steps guidance seed
          width height fmt w))
         = provider_calls w @ [(MODEL_ID, build_inputs prompt guidance seed width height fmt)]
    \<and> (\<forall>out img. client_run env MODEL_ID (build_inputs prompt guidance seed width height fmt)
                     = Inr out \<and> normalize_response env out = Inr img \<longrightarrow>
          fst (generate_image_with_replicate env prompt steps guidance seed width height fmt w)
            = Inr img)"
  using aspect_ratio_nonpos[OF assms(1)] generate_provider_calls[OF assms(2)]
    generate_success[OF assms(2)]
  by (simp add: build_inputs_aspect_ratio)

lemma demo_token: "get_replicate_token (demo_env out got up) = Inr ''r8_token''"
  by (simp add: get_replicate_token_def demo_env_def)

lemma aspect_ratio_0_512: "aspect_ratio 0 512 = ''0:512''"
  by (simp add: aspect_ratio_def Let_def str_int_def str_nat.simps digit_char_def)

lemma demo_normalize_readable:
  "normalize_response (demo_env out got up) (Readable (Inr d)) = Inr d"
  by (simp add: normalize_response_def first_or_self_def read_payload_def demo_env_def)

lemma demo_client_run: "client_run (demo_env out got up) m j = out"
  by (simp add: demo_env_def)

text \<open>
  A request of width 0 and height 512 does not fail: the job goes out with the aspect
  ratio \<^verbatim>\<open>0:512\<close> and the decoded image comes back.
\<close>

theorem nonpositive_width_counterexample:
  "fst (generate_image_with_replicate (demo_env (Inr (Readable (Inr [7, 7]))) demo_response None)
          ''a red fox'' 28 ''3.5'' None 0 512 ''png'' demo_world) = Inr [7, 7]
   \<and> map (\<lambda>c. snd c ''aspect_ratio'')
        (provider_calls (snd (generate_image_with_replicate
           (demo_env (Inr (Readable (Inr [7, 7]))) demo_response None)
           ''a red fox'' 28 ''3.5'' None 0 512 ''png'' demo_world)))
       = [Some (PStr ''0:512'')]"
proof -
  let ?env = "demo_env (Inr (Readable (Inr [7, 7]))) demo_response None"
  have 1: "fst (generate_image_with_replicate ?env
          ''a red fox'' 28 ''3.5'' None 0 512 ''png'' demo_world) = Inr [7, 7]"
    by (rule generate_success[OF demo_token demo_client_run demo_normalize_readable])
  have 2: "provider_calls demo_world = []" by (simp add: demo_world_def)
  show ?thesis
    unfolding 1 generate_provider_calls[OF demo_token] 2
    by (simp add: build_inputs_aspect_ratio aspect_ratio_0_512)
qed

theorem nonpositive_dimensions_are_sent_witness:
  "((0::int) \<le> 0 \<or> (512::int) \<le> 0)
   \<and> build_inputs ''a red fox'' ''3.5'' None 0 512 ''png'' ''aspect_ratio''
        = Some (PStr ''0:512'')
   \<and> fst (generate_image_with_replicate (demo_env (Inr (Readable (Inr [7, 7]))) demo_response None)
          ''a red fox'' 28 ''3.5'' None 0 512 ''png'' demo_world) = Inr [7, 7]"
proof -
  let ?env = "demo_env (Inr (Readable (Inr [7, 7]))) demo_response None"
  have h: "(0::int) \<le> 0 \<or> (512::int) \<le> 0" by simp
  note t = nonpositive_dimensions_are_sent[OF h demo_token,
      of "''a red fox''" "''3.5''" None "''png''" "Inr (Readable (Inr [7, 7]))" demo_response None
         28 demo_world]
  have c: "client_run ?env MODEL_ID (build_inputs ''a red fox'' ''3.5'' None 0 512 ''png'')
             = Inr (Readable (Inr [7, 7]))"
    by (rule demo_client_run)
  have n: "normalize_response ?env (Readable (Inr [7, 7])) = Inr [7, 7]"
    by (rule demo_normalize_readable)
  from t c n have "fst (generate_image_with_replicate ?env
          ''a red fox'' 28 ''3.5'' None 0 512 ''png'' demo_world) = Inr [7, 7]"
    by blast
  moreover from t have "build_inputs ''a red fox'' ''3.5'' None 0 512 ''png'' ''aspect_ratio''
        = Some (PStr (str_int 0 @ '':'' @ str_int 512))" by blast
  ultimately show ?thesis
    by (simp add: str_int_def str_nat.simps digit_char_def)
qed

subsection \<open>Metadata of the image and of the stored object\<close>

lemma png_metadata_eq:
  "snd (fst (add_metadata_to_image env img prompt steps guidance seed w)) =
     [(''prompt'', prompt), (''steps'', str_int steps),
      (''guidance_scale'', float_str env guidance)]
     @ (case seed of None \<Rightarrow> [] | Some s \<Rightarrow> if s \<noteq> 0 then [(''seed'', str_int s)] else [])
     @ [(''generated_at'', isoformat (clock env (ticks w))),
        (''model'', ''stable-diffusion-3.5-large''), (''generator'', ''replicate-client'')]"
  by (simp add: add_metadata_to_image_def Let_def add_text_def now_def split: option.split)

lemma png_seed:
  "map_of (snd (fst (add_metadata_to_image env img prompt steps guidance seed w))) ''seed'' =
     (case seed of None \<Rightarrow> None | Some s \<Rightarrow> if s \<noteq> 0 then Some (str_int s) else None)"
  unfolding png_metadata_eq by (simp split: option.split)

lemma png_keys:
  "fst ` set (snd (fst (add_metadata_to_image env img prompt steps guidance seed w))) =
     {''prompt'', ''steps'', ''guidance_scale'', ''generated_at'', ''model'', ''generator''}
       \<union> (case seed of None \<Rightarrow> {} | Some s \<Rightarrow> if s \<noteq> 0 then {''seed''} else {})"
  unfolding png_metadata_eq by (auto split: option.split)

lemma png_steps:
  "map_of (snd (fst (add_metadata_to_image env img prompt steps guidance seed w))) ''steps'' =
     Some (str_int steps)"
  unfolding png_metadata_eq by simp

lemma png_prompt:
  "map_of (snd (fst (add_metadata_to_image env img prompt steps guidance seed w))) ''prompt'' =
     Some prompt"
  unfolding png_metadata_eq by simp

lemma s3_seed:
  "s3_metadata_of env prompt steps guidance seed t ''seed'' =
     (case seed of None \<Rightarrow> None | Some s \<Rightarrow> if s \<noteq> 0 then Some (str_int s) else None)"
  by (simp add: s3_metadata_of_def Let_def split: option.split)

lemma s3_steps:
  "s3_metadata_of env prompt steps guidance seed t ''steps'' = Some (str_int steps)"
  by (simp add: s3_metadata_of_def Let_def split: option.split)

lemma s3_prompt:
  "s3_metadata_of env prompt steps guidance seed t ''prompt'' = Some (take 1024 prompt)"
  by (simp add: s3_metadata_of_def Let_def split: option.split)

lemma upload_to_s3_calls:
  assumes "boto3_client env region = None"
  shows "upload_calls (snd (upload_to_s3 env local_path bucket key prompt steps guidance seed
            region public w))
         = upload_calls w @ [(local_path, bucket, key,
             \<lparr>ContentType = ''image/png'',
              Metadata = s3_metadata_of env prompt steps guidance seed (clock env (ticks w)),
              CacheControl = ''public, max-age=31536000''\<rparr>)]"
  using assms
  by (simp add: upload_to_s3_def Let_def now_def log_info_def log_error_def
      split: option.split)

lemma upload_to_s3_result:
  assumes "upload_to_s3 env local_path bucket key prompt steps guidance seed region public w
             = (Inr result, w')"
  shows "r_prompt result = prompt"
    and "r_metadata result = s3_metadata_of env prompt steps guidance seed (clock env (ticks w))"
    and "r_key result = key"
  using assms
  by (auto simp: upload_to_s3_def Let_def now_def log_info_def log_error_def
      split: option.splits if_splits)

lemma upload_to_s3_sent:
  assumes "boto3_client env region = None"
  shows "Metadata (snd (snd (snd (last (upload_calls (snd (upload_to_s3 env local_path bucket key
            prompt steps guidance seed region public w)))))))
         = s3_metadata_of env prompt steps guidance seed (clock env (ticks w))"
  unfolding upload_to_s3_calls[OF assms] by simp

lemma demo_boto3: "boto3_client (demo_env out got up) region = None"
  by (simp add: demo_env_def)

text \<open>
  Claim C7. A seed that is \<^verbatim>\<open>None\<close> or 0 adds no \<^verbatim>\<open>seed\<close> entry to the text chunks of the
  image nor to the metadata of the stored object; any other seed is there under the key
  \<^verbatim>\<open>seed\<close> as its decimal string, in both. The metadata handed to the upload call is that
  same dictionary.
\<close>

theorem seed_in_metadata:
  "(seed = None \<or> seed = Some 0 \<longrightarrow>
      ''seed'' \<notin> fst ` set (snd (fst (add_metadata_to_image env img prompt steps guidance seed w)))
      \<and> s3_metadata_of env prompt steps guidance seed t ''seed'' = None)
   \<and> (\<forall>s. seed = Some s \<and> s \<noteq> 0 \<longrightarrow>
      map_of (snd (fst (add_metadata_to_image env img prompt steps guidance seed w))) ''seed''
        = Some (str_int s)
      \<and> s3_metadata_of env prompt steps guidance seed t ''seed'' = Some (str_int s))
   \<and> (boto3_client env region = None \<longrightarrow>
      Metadata (snd (snd (snd (last (upload_calls (snd (upload_to_s3 env local_path bucket key
         prompt steps guidance seed region public w'))))))) ''seed''
        = s3_metadata_of env prompt steps guidance seed (clock env (ticks w')) ''seed'')"
proof (intro conjI impI allI)
  assume "seed = None \<or> seed = Some 0"
  then show "''seed'' \<notin> fst ` set (snd (fst (add_metadata_to_image env img prompt steps guidance seed w)))"
    unfolding png_keys by auto
next
  assume "seed = None \<or> seed = Some 0"
  then show "s3_metadata_of env prompt steps guidance seed t ''seed'' = None"
    unfolding s3_seed by auto
next
  fix s assume "seed = Some s \<and> s \<noteq> 0"
  then show "map_of (snd (fst (add_metadata_to_image env img prompt steps guidance seed w))) ''seed''
        = Some (str_int s)"
    unfolding png_seed by simp
next
  fix s assume "seed = Some s \<and> s \<noteq> 0"
  then show "s3_metadata_of env prompt steps guidance seed t ''seed'' = Some (str_int s)"
    unfolding s3_seed by simp
next
  assume "boto3_client env region = None"
  then show "Metadata (snd (snd (snd (last (upload_calls (snd (upload_to_s3 env local_path bucket key
         prompt steps guidance seed region public w'))))))) ''seed''
        = s3_metadata_of env prompt steps guidance seed (clock env (ticks w')) ''seed''"
    by (simp add: upload_to_s3_sent)
qed

lemma str_int_42: "str_int 42 = ''42''"
  by (simp add: str_int_def str_nat.simps digit_char_def)

theorem seed_in_metadata_witness:
  "((Some 0 :: int option) = None \<or> Some (0::int) = Some 0)
   \<and> s3_metadata_of (demo_env (Inr (Readable (Inr [1, 2, 3]))) demo_response None) ''a red fox'' 28 ''3.5'' (Some 0) demo_time ''seed'' = None
   \<and> ''seed'' \<notin> fst ` set (snd (fst (add_metadata_to_image (demo_env (Inr (Readable (Inr [1, 2, 3]))) demo_response None) [1, 2]
         ''a red fox'' 28 ''3.5'' (Some 0) demo_world)))
   \<and> (Some (42::int) = Some 42 \<and> (42::int) \<noteq> 0)
   \<and> map_of (snd (fst (add_metadata_to_image (demo_env (Inr (Readable (Inr [1, 2, 3]))) demo_response None) [1, 2]
         ''a red fox'' 28 ''3.5'' (Some 42) demo_world))) ''seed'' = Some ''42''
   \<and> boto3_client (demo_env (Inr (Readable (Inr [1, 2, 3]))) demo_response None) None = None
   \<and> Metadata (snd (snd (snd (last (upload_calls (snd (upload_to_s3 (demo_env (Inr (Readable (Inr [1, 2, 3]))) demo_response None)
         ''/tmp/x.png'' ''my-bucket'' ''x.png'' ''a red fox'' 28 ''3.5'' (Some 42) None False
         demo_world))))))) ''seed'' = Some ''42''"
proof -
  let ?env = "demo_env (Inr (Readable (Inr [1, 2, 3]))) demo_response None"
  note a = seed_in_metadata[of "Some 0" ?env "[1, 2]" "''a red fox''" 28 "''3.5''" demo_world
      demo_time None "''/tmp/x.png''" "''my-bucket''" "''x.png''" False demo_world]
  note b = seed_in_metadata[of "Some 42" ?env "[1, 2]" "''a red fox''" 28 "''3.5''" demo_world
      "clock ?env (ticks demo_world)" None "''/tmp/x.png''" "''my-bucket''" "''x.png''" False
      demo_world]
  have h0: "(Some 0 :: int option) = None \<or> Some (0::int) = Some 0" by simp
  have h1: "Some (42::int) = Some 42 \<and> (42::int) \<noteq> 0" by simp
  from a h0 have 1: "s3_metadata_of ?env ''a red fox'' 28 ''3.5'' (Some 0) demo_time ''seed'' = None"
    and 2: "''seed'' \<notin> fst ` set (snd (fst (add_metadata_to_image ?env [1, 2]
         ''a red fox'' 28 ''3.5'' (Some 0) demo_world)))"
    by blast+
  from b h1 have 3: "map_of (snd (fst (add_metadata_to_image ?env [1, 2]
         ''a red fox'' 28 ''3.5'' (Some 42) demo_world))) ''seed'' = Some (str_int 42)"
    and 4: "s3_metadata_of ?env ''a red fox'' 28 ''3.5'' (Some 42) (clock ?env (ticks demo_world))
         ''seed'' = Some (str_int 42)"
    by blast+
  from b demo_boto3[of "Inr (Readable (Inr [1, 2, 3]))" demo_response None None] have 5: "Metadata (snd (snd (snd (last (upload_calls (snd (upload_to_s3 ?env
         ''/tmp/x.png'' ''my-bucket'' ''x.png'' ''a red fox'' 28 ''3.5'' (Some 42) None False
         demo_world))))))) ''seed''
       = s3_metadata_of ?env ''a red fox'' 28 ''3.5'' (Some 42) (clock ?env (ticks demo_world)) ''seed''"
    by blast
  show ?thesis
    using h0 h1 1 2 3 5[unfolded 4] demo_boto3[of "Inr (Readable (Inr [1, 2, 3]))" demo_response None None]
    unfolding str_int_42 by blast
qed

lemma generate_no_token:
  assumes "get_replicate_token env = Inl e"
  shows "generate_image_with_replicate env p st g s wd ht f w = (Inl e, w)"
  using assms by (simp add: generate_image_with_replicate_def)

lemma generate_steps_independent:
  "generate_image_with_replicate env p st g s wd ht f w
     = generate_image_with_replicate env p st' g s wd ht f w"
  by (simp add: generate_image_with_replicate_def)

lemma generate_new_calls:
  "drop (length (provider_calls w))
      (provider_calls (snd (generate_image_with_replicate env p st g s wd ht f w)))
     = (case get_replicate_token env of
          Inl e \<Rightarrow> []
        | Inr tok \<Rightarrow> [(MODEL_ID, build_inputs p g s wd ht f)])"
proof (cases "get_replicate_token env")
  case (Inl e)
  then show ?thesis by (simp add: generate_no_token)
next
  case (Inr tok)
  then show ?thesis by (simp add: generate_provider_calls)
qed

text \<open>
  Claim C8. The steps do not reach the provider: the outcome of the generation, with the
  calls it makes, is the same for any two values of the steps, and no job it sends has a
  key \<^verbatim>\<open>steps\<close>. The text chunks of the image and the metadata of the stored object both
  hold the steps as their decimal string.
\<close>

theorem steps_not_sent_but_recorded:
  "generate_image_with_replicate env prompt steps guidance seed width height fmt w
     = generate_image_with_replicate env prompt steps' guidance seed width height fmt w
   \<and> (\<forall>c \<in> set (drop (length (provider_calls w))
          (provider_calls (snd (generate_image_with_replicate env prompt steps guidance seed
             width height fmt w)))).
        snd c ''steps'' = None)
   \<and> map_of (snd (fst (add_metadata_to_image env img prompt steps guidance seed w1))) ''steps''
        = Some (str_int steps)
   \<and> s3_metadata_of env prompt steps guidance seed t ''steps'' = Some (str_int steps)
   \<and> (boto3_client env region = None \<longrightarrow>
      Metadata (snd (snd (snd (last (upload_calls (snd (upload_to_s3 env local_path bucket key
         prompt steps guidance seed region public w2))))))) ''steps''
        = Some (str_int steps))"
proof (intro conjI impI ballI)
  show "generate_image_with_replicate env prompt steps guidance seed width height fmt w
     = generate_image_with_replicate env prompt steps' guidance seed width height fmt w"
    by (rule generate_steps_independent)
next
  fix c
  assume "c \<in> set (drop (length (provider_calls w))
          (provider_calls (snd (generate_image_with_replicate env prompt steps guidance seed
             width height fmt w))))"
  then show "snd c ''steps'' = None"
    unfolding generate_new_calls
    by (cases "get_replicate_token env") (auto simp: build_inputs_steps)
next
  show "map_of (snd (fst (add_metadata_to_image env img prompt steps guidance seed w1))) ''steps''
        = Some (str_int steps)"
    by (rule png_steps)
next
  show "s3_metadata_of env prompt steps guidance seed t ''steps'' = Some (str_int steps)"
    by (rule s3_steps)
next
  assume "boto3_client env region = None"
  then show "Metadata (snd (snd (snd (last (upload_calls (snd (upload_to_s3 env local_path bucket key
         prompt steps guidance seed region public w2))))))) ''steps''
        = Some (str_int steps)"
    by (simp add: upload_to_s3_sent s3_steps)
qed

lemma str_int_28: "str_int 28 = ''28''"
  by (simp add: str_int_def str_nat.simps digit_char_def)

theorem steps_not_sent_but_recorded_witness:
  "(MODEL_ID, build_inputs ''a red fox'' ''3.5'' None 1024 1024 ''png'')
      \<in> set (drop (length (provider_calls demo_world))
          (provider_calls (snd (generate_image_with_replicate
             (demo_env (Inr (Readable (Inr [1, 2, 3]))) demo_response None)
             ''a red fox'' 28 ''3.5'' None 1024 1024 ''png'' demo_world))))
   \<and> build_inputs ''a red fox'' ''3.5'' None 1024 1024 ''png'' ''steps''
        = (None :: string py_val option)
   \<and> boto3_client (demo_env (Inr (Readable (Inr [1, 2, 3]))) demo_response None) None = None
   \<and> Metadata (snd (snd (snd (last (upload_calls (snd (upload_to_s3
         (demo_env (Inr (Readable (Inr [1, 2, 3]))) demo_response None)
         ''/tmp/x.png'' ''my-bucket'' ''x.png'' ''a red fox'' 28 ''3.5'' None None False
         demo_world))))))) ''steps'' = Some ''28''"
proof -
  let ?env = "demo_env (Inr (Readable (Inr [1, 2, 3]))) demo_response None"
  let ?c = "(MODEL_ID, build_inputs ''a red fox'' ''3.5'' None 1024 1024 ''png'')"
  note t = steps_not_sent_but_recorded[of ?env "''a red fox''" 28 "''3.5''" None 1024 1024
      "''png''" demo_world 28 "[1, 2, 3]" demo_world demo_time None "''/tmp/x.png''"
      "''my-bucket''" "''x.png''" False demo_world]
  have m: "?c \<in> set (drop (length (provider_calls demo_world))
          (provider_calls (snd (generate_image_with_replicate ?env
             ''a red fox'' 28 ''3.5'' None 1024 1024 ''png'' demo_world))))"
    unfolding generate_new_calls by (simp add: demo_token)
  from t m have 1: "snd ?c ''steps'' = None" by blast
  have b: "boto3_client ?env None = None" by (rule demo_boto3)
  from t b have 2: "Metadata (snd (snd (snd (last (upload_calls (snd (upload_to_s3 ?env
         ''/tmp/x.png'' ''my-bucket'' ''x.png'' ''a red fox'' 28 ''3.5'' None None False
         demo_world))))))) ''steps'' = Some (str_int 28)"
    by blast
  show ?thesis using m 1 b 2 unfolding str_int_28 by simp
qed

text \<open>
  Claim C9. The metadata of the stored object holds the first 1024 characters of the
  prompt: at most 1024, exactly 1024 when the prompt is longer, the whole prompt
  otherwise. The text chunk of the image and the \<^verbatim>\<open>prompt\<close> field of the upload result
  hold the prompt unchanged.
\<close>

theorem prompt_truncated_only_in_storage:
  "s3_metadata_of env prompt steps guidance seed t ''prompt'' = Some (take 1024 prompt)
   \<and> length (take 1024 prompt) \<le> 1024
   \<and> (1024 < length prompt \<longrightarrow> length (take 1024 prompt) = 1024)
   \<and> (length prompt \<le> 1024 \<longrightarrow> take 1024 prompt = prompt)
   \<and> map_of (snd (fst (add_metadata_to_image env img prompt steps guidance seed w1))) ''prompt''
        = Some prompt
   \<and> (\<forall>result. fst (upload_to_s3 env local_path bucket key prompt steps guidance seed region
                      public w2) = Inr result \<longrightarrow>
         r_prompt result = prompt \<and> r_metadata result ''prompt'' = Some (take 1024 prompt))
   \<and> (boto3_client env region = None \<longrightarrow>
      Metadata (snd (snd (snd (last (upload_calls (snd (upload_to_s3 env local_path bucket key
         prompt steps guidance seed region public w2))))))) ''prompt''
        = Some (take 1024 prompt))"
proof (intro conjI impI allI)
  show "s3_metadata_of env prompt steps guidance seed t ''prompt'' = Some (take 1024 prompt)"
    by (rule s3_prompt)
  show "map_of (snd (fst (add_metadata_to_image env img prompt steps guidance seed w1))) ''prompt''
        = Some prompt"
    by (rule png_prompt)
  show "length (take 1024 prompt) \<le> 1024" by simp
  show "length (take 1024 prompt) = 1024" if "1024 < length prompt" using that by simp
  show "take 1024 prompt = prompt" if "length prompt \<le> 1024" using that by simp
  show "Metadata (snd (snd (snd (last (upload_calls (snd (upload_to_s3 env local_path bucket key
         prompt steps guidance seed region public w2))))))) ''prompt''
        = Some (take 1024 prompt)" if "boto3_client env region = None"
    using that by (simp add: upload_to_s3_sent s3_prompt)
next
  fix result
  assume "fst (upload_to_s3 env local_path bucket key prompt steps guidance seed region
                      public w2) = Inr result"
  then have u: "upload_to_s3 env local_path bucket key prompt steps guidance seed region public w2
      = (Inr result, snd (upload_to_s3 env local_path bucket key prompt steps guidance seed
           region public w2))"
    by (metis prod.collapse)
  show "r_prompt result = prompt" by (rule upload_to_s3_result(1)[OF u])
  show "r_metadata result ''prompt'' = Some (take 1024 prompt)"
    unfolding upload_to_s3_result(2)[OF u] by (rule s3_prompt)
qed


lemma upload_to_s3_ok:
  assumes "boto3_client env region = None"
    and "upload_file env local_path bucket key
           \<lparr>ContentType = ''image/png'',
            Metadata = s3_metadata_of env prompt steps guidance seed (clock env (ticks w)),
            CacheControl = ''public, max-age=31536000''\<rparr> = None"
  shows "\<exists>r. fst (upload_to_s3 env local_path bucket key prompt steps guidance seed region
                  public w) = Inr r"
  using assms by (simp add: upload_to_s3_def Let_def now_def)

lemma demo_upload_file: "upload_file (demo_env out got up) p b k x = up"
  by (simp add: demo_env_def)

theorem prompt_truncated_only_in_storage_witness:
  "1024 < length (replicate 1030 CHR ''a'')
   \<and> length (take 1024 (replicate 1030 CHR ''a'')) = 1024
   \<and> length ''a red fox'' \<le> 1024
   \<and> take 1024 ''a red fox'' = ''a red fox''
   \<and> (case fst (upload_to_s3 (demo_env (Inr (Readable (Inr [1, 2, 3]))) demo_response None)
         ''/tmp/x.png'' ''my-bucket'' ''x.png'' (replicate 1030 CHR ''a'') 28 ''3.5'' None None
         False demo_world) of
        Inl e \<Rightarrow> False
      | Inr r \<Rightarrow> r_prompt r = replicate 1030 CHR ''a''
               \<and> r_metadata r ''prompt'' = Some (replicate 1024 CHR ''a''))
   \<and> boto3_client (demo_env (Inr (Readable (Inr [1, 2, 3]))) demo_response None) None = None
   \<and> Metadata (snd (snd (snd (last (upload_calls (snd (upload_to_s3
         (demo_env (Inr (Readable (Inr [1, 2, 3]))) demo_response None)
         ''/tmp/x.png'' ''my-bucket'' ''x.png'' (replicate 1030 CHR ''a'') 28 ''3.5'' None None
         False demo_world))))))) ''prompt'' = Some (replicate 1024 CHR ''a'')"
proof -
  let ?env = "demo_env (Inr (Readable (Inr [1, 2, 3]))) demo_response None"
  let ?p = "replicate 1030 CHR ''a''"
  note t = prompt_truncated_only_in_storage[of ?env ?p 28 "''3.5''" None demo_time "[1, 2, 3]"
      demo_world "''/tmp/x.png''" "''my-bucket''" "''x.png''" None False demo_world]
  note s = prompt_truncated_only_in_storage[of ?env "''a red fox''" 28 "''3.5''" None demo_time
      "[1, 2, 3]" demo_world "''/tmp/x.png''" "''my-bucket''" "''x.png''" None False demo_world]
  have tk: "take 1024 ?p = replicate 1024 CHR ''a''" by simp
  have h1: "1024 < length ?p" by simp
  have h2: "length ''a red fox'' \<le> 1024" by simp
  have b: "boto3_client ?env None = None" by (rule demo_boto3)
  obtain r where r: "fst (upload_to_s3 ?env ''/tmp/x.png'' ''my-bucket'' ''x.png'' ?p 28 ''3.5''
      None None False demo_world) = Inr r"
    using upload_to_s3_ok[OF b demo_upload_file] by blast
  from t h1 have 1: "length (take 1024 ?p) = 1024" by blast
  from s h2 have 2: "take 1024 ''a red fox'' = ''a red fox''" by blast
  from t r have 3: "r_prompt r = ?p \<and> r_metadata r ''prompt'' = Some (take 1024 ?p)" by blast
  from t b have 4: "Metadata (snd (snd (snd (last (upload_calls (snd (upload_to_s3 ?env
         ''/tmp/x.png'' ''my-bucket'' ''x.png'' ?p 28 ''3.5'' None None
         False demo_world))))))) ''prompt'' = Some (take 1024 ?p)" by blast
  show ?thesis
    using h1 1 h2 2 3[unfolded tk] b 4[unfolded tk] unfolding r by simp
qed

subsection \<open>Response normalization\<close>

lemma normalize_readable:
  "normalize_response env (Readable (Inr d)) = image_open env d"
  by (simp add: normalize_response_def first_or_self_def read_payload_def)

lemma normalize_list_readable:
  "normalize_response env (PyList (Readable (Inr d) # rest)) = image_open env d"
  by (simp add: normalize_response_def first_or_self_def read_payload_def)

lemma normalize_url:
  assumes "requests_get env url = Inr r" and "raise_for_status r = None"
  shows "normalize_response env (PyStr url) = image_open env (content r)"
  using assms by (simp add: normalize_response_def first_or_self_def read_payload_def)

lemma normalize_list_url:
  assumes "requests_get env url = Inr r" and "raise_for_status r = None"
  shows "normalize_response env (PyList (PyStr url # rest)) = image_open env (content r)"
  using assms by (simp add: normalize_response_def first_or_self_def read_payload_def)

lemma normalize_other:
  "normalize_response env (Other ty) = Inl (unexpected_output ty)"
  by (simp add: normalize_response_def first_or_self_def read_payload_def)

lemma normalize_list_other:
  "normalize_response env (PyList (Other ty # rest)) = Inl (unexpected_output ty)"
  by (simp add: normalize_response_def first_or_self_def read_payload_def)

lemma normalize_list_list:
  "normalize_response env (PyList (PyList ys # rest)) = Inl (unexpected_output ''list'')"
  by (simp add: normalize_response_def first_or_self_def read_payload_def)

lemma normalize_empty_list:
  "normalize_response env (PyList []) = Inl (Exc IndexError ''list index out of range'')"
  by (simp add: normalize_response_def first_or_self_def)

lemma unexpected_output_reports:
  "exc_cls (unexpected_output ty) = RuntimeError \<and> sublist ty (exc_msg (unexpected_output ty))"
proof -
  have "exc_msg (unexpected_output ty)
          = (''Unexpected output type: <class '' @ [quote]) @ ty @ ([quote] @ ''>'')"
    unfolding unexpected_output_def by simp
  then have "sublist ty (exc_msg (unexpected_output ty))"
    by (simp only: sublist_appendI)
  moreover have "exc_cls (unexpected_output ty) = RuntimeError"
    by (simp add: unexpected_output_def)
  ultimately show ?thesis by simp
qed

lemma demo_image_open: "image_open (demo_env out got up) d = Inr d"
  by (simp add: demo_env_def)

lemma demo_requests_get: "requests_get (demo_env out got up) url = got"
  by (simp add: demo_env_def)

text \<open>
  A list of two streams is none of the three shapes of the claim, and it is no error:
  the first stream is decoded and the second is ignored.
\<close>

theorem two_element_list_counterexample:
  "normalize_response (demo_env (Inr (Other ''NoneType'')) demo_response None)
     (PyList [Readable (Inr [1]), Readable (Inr [2])]) = Inr [1]"
  by (simp add: normalize_list_readable demo_image_open)

subsection \<open>Provider errors\<close>

lemma generate_provider_error:
  assumes "get_replicate_token env = Inr tok"
    and "client_run env MODEL_ID (build_inputs p g s wd ht f) = Inl e"
    and "is_Exception e"
  shows "generate_image_with_replicate env p st g s wd ht f w =
     provider_except e
       ((log_info w (''Generating with cfg='' @ float_str env g @ '', aspect_ratio=''
            @ (case build_inputs p g s wd ht f ''aspect_ratio'' of
                 None \<Rightarrow> ''1:1'' | Some v \<Rightarrow> format_val env v)))
        \<lparr>provider_calls := provider_calls w @ [(MODEL_ID, build_inputs p g s wd ht f)]\<rparr>)"
  using assms by (simp add: generate_image_with_replicate_def Let_def log_info_def)

lemma provider_except_404:
  assumes "sublist ''404'' (exc_msg e)"
  shows "fst (provider_except e w) = Inl e"
    and "logs (snd (provider_except e w)) = logs w @
           [(ERROR, ''Model slug not found: use '' @ [quote] @ MODEL_ID @ [quote])]"
  using assms by (simp_all add: provider_except_def Let_def log_error_def MODEL_ID_def)

lemma provider_except_401:
  assumes "\<not> sublist ''404'' (exc_msg e)"
    and "sublist ''401'' (exc_msg e) \<or> sublist ''unauthorized'' (lower (exc_msg e))"
  shows "provider_except e w =
           (Inl (Exc ValueError ''Invalid Replicate token (REPLICATE_API_TOKEN).''), w)"
  using assms by (auto simp: provider_except_def Let_def)

lemma provider_except_other:
  assumes "\<not> sublist ''404'' (exc_msg e)"
    and "\<not> sublist ''401'' (exc_msg e)" and "\<not> sublist ''unauthorized'' (lower (exc_msg e))"
  shows "provider_except e w = (Inl e, w)"
  using assms by (simp add: provider_except_def Let_def)

text \<open>
  Claim C5, as the code has it. With a token present, let the provider's client raise an
  exception \<open>e\<close> (a subclass of \<^verbatim>\<open>Exception\<close>). The classes are decided by its text. The
  handler tests the text of \<open>e\<close> in this order. If it holds \<^verbatim>\<open>404\<close>, an error line naming
  the model identifier to use is logged and \<open>e\<close> itself is raised again. Otherwise, if it
  holds \<^verbatim>\<open>401\<close> or, in lower case, \<^verbatim>\<open>unauthorized\<close>, a \<^verbatim>\<open>ValueError\<close> about the invalid
  token is raised in its place. Otherwise \<open>e\<close> is raised again and no error line is
  logged. In every case the provider was called once.
\<close>

theorem provider_errors_classified:
  assumes "get_replicate_token env = Inr tok"
    and "client_run env MODEL_ID (build_inputs prompt guidance seed width height fmt) = Inl e"
    and "is_Exception e"
  shows "(sublist ''404'' (exc_msg e) \<longrightarrow>
            fst (generate_image_with_replicate env prompt steps guidance seed width height fmt w)
              = Inl e
            \<and> last (logs (snd (generate_image_with_replicate env prompt steps guidance seed
                 width height fmt w)))
              = (ERROR, ''Model slug not found: use '' @ [quote] @ MODEL_ID @ [quote]))
    \<and> (\<not> sublist ''404'' (exc_msg e)
         \<and> (sublist ''401'' (exc_msg e) \<or> sublist ''unauthorized'' (lower (exc_msg e))) \<longrightarrow>
            fst (generate_image_with_replicate env prompt steps guidance seed width height fmt w)
              = Inl (Exc ValueError ''Invalid Replicate token (REPLICATE_API_TOKEN).''))
    \<and> (\<not> sublist ''404'' (exc_msg e) \<and> \<not> sublist ''401'' (exc_msg e)
         \<and> \<not> sublist ''unauthorized'' (lower (exc_msg e)) \<longrightarrow>
            fst (generate_image_with_replicate env prompt steps guidance seed width height fmt w)
              = Inl e
            \<and> ERROR \<notin> fst ` set (drop (length (logs w))
                 (logs (snd (generate_image_with_replicate env prompt steps guidance seed
                    width height fmt w)))))
    \<and> provider_calls (snd (generate_image_with_replicate env prompt steps guidance seed
          width height fmt w))
        = provider_calls w @ [(MODEL_ID, build_inputs prompt guidance seed width height fmt)]"
proof (intro conjI impI)
  note g = generate_provider_error[OF assms]
  show "provider_calls (snd (generate_image_with_replicate env prompt steps guidance seed
          width height fmt w))
        = provider_calls w @ [(MODEL_ID, build_inputs prompt guidance seed width height fmt)]"
    by (rule generate_provider_calls[OF assms(1)])
  {
    assume h: "sublist ''404'' (exc_msg e)"
    show "fst (generate_image_with_replicate env prompt steps guidance seed width height fmt w)
              = Inl e"
      unfolding g by (rule provider_except_404(1)[OF h])
    show "last (logs (snd (generate_image_with_replicate env prompt steps guidance seed
                 width height fmt w)))
              = (ERROR, ''Model slug not found: use '' @ [quote] @ MODEL_ID @ [quote])"
      unfolding g provider_except_404(2)[OF h] by simp
  }
  {
    assume h: "\<not> sublist ''404'' (exc_msg e)
         \<and> (sublist ''401'' (exc_msg e) \<or> sublist ''unauthorized'' (lower (exc_msg e)))"
    then have o: "\<And>w'. provider_except e w' =
        (Inl (Exc ValueError ''Invalid Replicate token (REPLICATE_API_TOKEN).''), w')"
      using provider_except_401[of e] by blast
    show "fst (generate_image_with_replicate env prompt steps guidance seed width height fmt w)
              = Inl (Exc ValueError ''Invalid Replicate token (REPLICATE_API_TOKEN).'')"
      unfolding g o by simp
  }
  {
    assume h: "\<not> sublist ''404'' (exc_msg e) \<and> \<not> sublist ''401'' (exc_msg e)
         \<and> \<not> sublist ''unauthorized'' (lower (exc_msg e))"
    then have o: "\<And>w'. provider_except e w' = (Inl e, w')"
      using provider_except_other[of e] by blast
    show "fst (generate_image_with_replicate env prompt steps guidance seed width height fmt w)
              = Inl e"
      unfolding g o by simp
    show "ERROR \<notin> fst ` set (drop (length (logs w))
                 (logs (snd (generate_image_with_replicate env prompt steps guidance seed
                    width height fmt w))))"
      unfolding g o by (simp add: log_info_def)
  }
qed


lemma msg_404: "sublist ''404'' ''status: 404 detail: not found''"
  by code_simp

lemma msg_401:
  "\<not> sublist ''404'' ''status: 401 detail: Unauthenticated''"
  "sublist ''401'' ''status: 401 detail: Unauthenticated''"
  by code_simp+

lemma msg_500:
  "\<not> sublist ''404'' ''status: 500 detail: Internal error''"
  "\<not> sublist ''401'' ''status: 500 detail: Internal error''"
  "\<not> sublist ''unauthorized'' (lower ''status: 500 detail: Internal error'')"
  by code_simp+

lemma demo_error_sel:
  "exc_msg (demo_error m) = m" "is_Exception (demo_error m)"
  by (simp_all add: demo_error_def is_Exception_def)

subsection \<open>Storage key\<close>

lemma length_str_nat_le: "0 < k \<Longrightarrow> n < 10 ^ k \<Longrightarrow> length (str_nat n) \<le> k"
proof (induction k arbitrary: n)
  case 0
  then show ?case by simp
next
  case (Suc k)
  show ?case
  proof (cases "n < 10")
    case True
    then show ?thesis by (simp add: str_nat_small)
  next
    case False
    then have k: "0 < k" using Suc.prems by (cases k) auto
    have "n div 10 < 10 ^ k" using Suc.prems(2) by (simp add: less_mult_imp_div_less mult.commute)
    from Suc.IH[OF k this] False show ?thesis by (simp add: str_nat_big)
  qed
qed

lemma length_zfill: "length (zfill n s) = max n (length s)"
  by (simp add: zfill_def)

lemma zfill_digits: "set s \<subseteq> set ''0123456789'' \<Longrightarrow> set (zfill n s) \<subseteq> set ''0123456789''"
  by (auto simp: zfill_def)

lemma strftime_lengths:
  assumes "valid_datetime t"
  shows "length (strftime_Y t) = 4" and "length (strftime_m t) = 2"
    and "length (strftime_d t) = 2"
proof -
  from assms have y: "year t < 10 ^ 4" and m: "month t < 10 ^ 2" and d: "day t < 10 ^ 2"
    by (simp_all add: valid_datetime_def)
  have "length (str_nat (year t)) \<le> 4" by (rule length_str_nat_le[OF _ y]) simp
  then show "length (strftime_Y t) = 4" by (simp add: strftime_Y_def length_zfill)
  have "length (str_nat (month t)) \<le> 2" by (rule length_str_nat_le[OF _ m]) simp
  then show "length (strftime_m t) = 2" by (simp add: strftime_m_def length_zfill)
  have "length (str_nat (day t)) \<le> 2" by (rule length_str_nat_le[OF _ d]) simp
  then show "length (strftime_d t) = 2" by (simp add: strftime_d_def length_zfill)
qed

lemma strftime_digits:
  "set (strftime_Y t) \<subseteq> set ''0123456789''"
  "set (strftime_m t) \<subseteq> set ''0123456789''"
  "set (strftime_d t) \<subseteq> set ''0123456789''"
  unfolding strftime_Y_def strftime_m_def strftime_d_def
  by (rule zfill_digits[OF str_nat_digits])+

lemma create_filename_with_date_eq:
  "create_filename_with_date env pre w =
     (pre @ ''_'' @ strftime_Ymd (clock env (ticks w)) @ ''.png'', w\<lparr>ticks := Suc (ticks w)\<rparr>)"
  by (simp add: create_filename_with_date_def now_def)

lemma create_s3_key_organized_eq:
  "create_s3_key_organized env base_path w =
     (base_path @ ''/'' @ strftime_Y (clock env (ticks w)) @ ''/''
        @ strftime_m (clock env (ticks w)) @ ''/'' @ strftime_d (clock env (ticks w)) @ ''/''
        @ ''sd3_'' @ strftime_Ymd (clock env (Suc (ticks w))) @ ''.png'',
      w\<lparr>ticks := Suc (Suc (ticks w))\<rparr>)"
  by (simp add: create_s3_key_organized_def create_filename_with_date_eq now_def)

lemma determine_s3_key_explicit:
  "arg_key args = Some k \<Longrightarrow> k \<noteq> [] \<Longrightarrow> determine_s3_key env args w = (k, w)"
  by (simp add: determine_s3_key_def)

lemma determine_s3_key_generated:
  assumes "arg_key args = None \<or> arg_key args = Some []"
  shows "determine_s3_key env args w =
     (if arg_organized args then create_s3_key_organized env ''images'' w
      else create_filename_with_date env ''sd3'' w)"
  using assms by (auto simp: determine_s3_key_def)

lemma strftime_Ymd_cong:
  "year t = year t' \<Longrightarrow> month t = month t' \<Longrightarrow> day t = day t' \<Longrightarrow>
     strftime_Ymd t = strftime_Ymd t' \<and> strftime_Y t = strftime_Y t'
     \<and> strftime_m t = strftime_m t' \<and> strftime_d t = strftime_d t'"
  by (simp add: strftime_Ymd_def strftime_Y_def strftime_m_def strftime_d_def)

text \<open>
  Claim C6, as the code has it. A key that is given and not empty is the storage key,
  whatever the other flags. Otherwise (no key, or the empty string), with the
  organized-by-date flag and both clock reads of the derivation on the same date, the
  key is \<^verbatim>\<open>images/YYYY/MM/DD/sd3_YYYY-MM-DD.png\<close>; without the flag it is
  \<^verbatim>\<open>sd3_YYYY-MM-DD.png\<close>. For a date of the calendar the year has four digits, the
  month and the day two.
\<close>

theorem storage_key_priority:
  "(\<forall>k. arg_key args = Some k \<and> k \<noteq> [] \<longrightarrow> fst (determine_s3_key env args w) = k)
   \<and> ((arg_key args = None \<or> arg_key args = Some []) \<and> arg_organized args
        \<and> year (clock env (Suc (ticks w))) = year (clock env (ticks w))
        \<and> month (clock env (Suc (ticks w))) = month (clock env (ticks w))
        \<and> day (clock env (Suc (ticks w))) = day (clock env (ticks w)) \<longrightarrow>
        fst (determine_s3_key env args w) =
          ''images/'' @ strftime_Y (clock env (ticks w)) @ ''/''
            @ strftime_m (clock env (ticks w)) @ ''/'' @ strftime_d (clock env (ticks w))
            @ ''/sd3_'' @ strftime_Y (clock env (ticks w)) @ ''-''
            @ strftime_m (clock env (ticks w)) @ ''-''
            @ strftime_d (clock env (ticks w)) @ ''.png'')
   \<and> ((arg_key args = None \<or> arg_key args = Some []) \<and> \<not> arg_organized args \<longrightarrow>
        fst (determine_s3_key env args w) =
          ''sd3_'' @ strftime_Y (clock env (ticks w)) @ ''-''
            @ strftime_m (clock env (ticks w)) @ ''-''
            @ strftime_d (clock env (ticks w)) @ ''.png'')
   \<and> (valid_datetime t \<longrightarrow>
        length (strftime_Y t) = 4 \<and> length (strftime_m t) = 2 \<and> length (strftime_d t) = 2
        \<and> set (strftime_Y t @ strftime_m t @ strftime_d t) \<subseteq> set ''0123456789'')"
proof (intro conjI impI allI)
  fix k assume "arg_key args = Some k \<and> k \<noteq> []"
  then show "fst (determine_s3_key env args w) = k"
    by (simp add: determine_s3_key_explicit)
next
  assume h: "(arg_key args = None \<or> arg_key args = Some []) \<and> arg_organized args
        \<and> year (clock env (Suc (ticks w))) = year (clock env (ticks w))
        \<and> month (clock env (Suc (ticks w))) = month (clock env (ticks w))
        \<and> day (clock env (Suc (ticks w))) = day (clock env (ticks w))"
  then have "strftime_Ymd (clock env (Suc (ticks w))) = strftime_Ymd (clock env (ticks w))"
    using strftime_Ymd_cong by blast
  with h show "fst (determine_s3_key env args w) =
          ''images/'' @ strftime_Y (clock env (ticks w)) @ ''/''
            @ strftime_m (clock env (ticks w)) @ ''/'' @ strftime_d (clock env (ticks w))
            @ ''/sd3_'' @ strftime_Y (clock env (ticks w)) @ ''-''
            @ strftime_m (clock env (ticks w)) @ ''-''
            @ strftime_d (clock env (ticks w)) @ ''.png''"
    by (simp add: determine_s3_key_generated create_s3_key_organized_eq strftime_Ymd_def)
next
  assume "(arg_key args = None \<or> arg_key args = Some []) \<and> \<not> arg_organized args"
  then show "fst (determine_s3_key env args w) =
          ''sd3_'' @ strftime_Y (clock env (ticks w)) @ ''-''
            @ strftime_m (clock env (ticks w)) @ ''-''
            @ strftime_d (clock env (ticks w)) @ ''.png''"
    by (simp add: determine_s3_key_generated create_filename_with_date_eq strftime_Ymd_def)
next
  assume v: "valid_datetime t"
  show "length (strftime_Y t) = 4" "length (strftime_m t) = 2" "length (strftime_d t) = 2"
    by (rule strftime_lengths[OF v])+
  show "set (strftime_Y t @ strftime_m t @ strftime_d t) \<subseteq> set ''0123456789''"
    using strftime_digits[of t] by simp
qed


lemma demo_strftime:
  "strftime_Y demo_time = ''2025''" "strftime_m demo_time = ''10''"
  "strftime_d demo_time = ''13''"
  by (simp_all add: strftime_Y_def strftime_m_def strftime_d_def zfill_def str_nat.simps
      digit_char_def demo_time_def)

lemma demo_clock: "clock (demo_env out got up) n = demo_time"
  by (simp add: demo_env_def)

lemma demo_key_flat:
  assumes "arg_key args = None \<or> arg_key args = Some []" and "\<not> arg_organized args"
  shows "fst (determine_s3_key (demo_env out got up) args w) = ''sd3_2025-10-13.png''"
  using assms
  by (simp add: determine_s3_key_generated create_filename_with_date_eq strftime_Ymd_def
      demo_clock demo_strftime)

text \<open>
  An explicit key that is the empty string is not used: \<^verbatim>\<open>if args.key:\<close> is false for it
  and the dated name is generated.
\<close>

theorem empty_key_counterexample:
  "fst (determine_s3_key (demo_env (Inr (Readable (Inr [1, 2, 3]))) demo_response None)
         (demo_args\<lparr>arg_key := Some []\<rparr>) demo_world) = ''sd3_2025-10-13.png''"
  by (rule demo_key_flat) (simp_all add: demo_args_def)

theorem storage_key_priority_witness:
  "(arg_key (demo_args\<lparr>arg_key := Some ''foo.png'', arg_organized := True\<rparr>) = Some ''foo.png''
     \<and> ''foo.png'' \<noteq> [])
   \<and> fst (determine_s3_key (demo_env (Inr (Readable (Inr [1, 2, 3]))) demo_response None)
         (demo_args\<lparr>arg_key := Some ''foo.png'', arg_organized := True\<rparr>) demo_world)
       = ''foo.png''
   \<and> arg_key (demo_args\<lparr>arg_organized := True\<rparr>) = None
   \<and> arg_organized (demo_args\<lparr>arg_organized := True\<rparr>)
   \<and> fst (determine_s3_key (demo_env (Inr (Readable (Inr [1, 2, 3]))) demo_response None)
         (demo_args\<lparr>arg_organized := True\<rparr>) demo_world)
       = ''images/2025/10/13/sd3_2025-10-13.png''
   \<and> arg_key demo_args = None \<and> \<not> arg_organized demo_args
   \<and> fst (determine_s3_key (demo_env (Inr (Readable (Inr [1, 2, 3]))) demo_response None)
         demo_args demo_world)
       = ''sd3_2025-10-13.png''
   \<and> valid_datetime demo_time
   \<and> length (strftime_Y demo_time) = 4 \<and> length (strftime_m demo_time) = 2
   \<and> length (strftime_d demo_time) = 2"
proof -
  let ?env = "demo_env (Inr (Readable (Inr [1, 2, 3]))) demo_response None"
  let ?a = "demo_args\<lparr>arg_key := Some ''foo.png'', arg_organized := True\<rparr>"
  let ?b = "demo_args\<lparr>arg_organized := True\<rparr>"
  note ta = storage_key_priority[of ?a ?env demo_world demo_time]
  note tb = storage_key_priority[of ?b ?env demo_world demo_time]
  note tc = storage_key_priority[of demo_args ?env demo_world demo_time]
  have ha: "arg_key ?a = Some ''foo.png'' \<and> ''foo.png'' \<noteq> []" by simp
  have hb: "arg_key ?b = None" "arg_organized ?b" by (simp_all add: demo_args_def)
  have hc: "arg_key demo_args = None" "\<not> arg_organized demo_args"
    by (simp_all add: demo_args_def)
  have v: "valid_datetime demo_time" by (simp add: valid_datetime_def demo_time_def)
  have same: "year (clock ?env (Suc (ticks demo_world))) = year (clock ?env (ticks demo_world))"
    "month (clock ?env (Suc (ticks demo_world))) = month (clock ?env (ticks demo_world))"
    "day (clock ?env (Suc (ticks demo_world))) = day (clock ?env (ticks demo_world))"
    by (simp_all add: demo_clock)
  from ta ha have 1: "fst (determine_s3_key ?env ?a demo_world) = ''foo.png''" by blast
  from tb hb same have 2: "fst (determine_s3_key ?env ?b demo_world) =
          ''images/'' @ strftime_Y (clock ?env (ticks demo_world)) @ ''/''
            @ strftime_m (clock ?env (ticks demo_world)) @ ''/''
            @ strftime_d (clock ?env (ticks demo_world))
            @ ''/sd3_'' @ strftime_Y (clock ?env (ticks demo_world)) @ ''-''
            @ strftime_m (clock ?env (ticks demo_world)) @ ''-''
            @ strftime_d (clock ?env (ticks demo_world)) @ ''.png''" by blast
  from tc hc have 3: "fst (determine_s3_key ?env demo_args demo_world) =
          ''sd3_'' @ strftime_Y (clock ?env (ticks demo_world)) @ ''-''
            @ strftime_m (clock ?env (ticks demo_world)) @ ''-''
            @ strftime_d (clock ?env (ticks demo_world)) @ ''.png''" by blast
  from tc v have 4: "length (strftime_Y demo_time) = 4 \<and> length (strftime_m demo_time) = 2
      \<and> length (strftime_d demo_time) = 2" by blast
  show ?thesis
    using ha 1 hb 2 hc 3 v 4 unfolding demo_clock demo_strftime by simp
qed

subsection \<open>Temporary file\<close>


lemma split_on_no_sep: "c \<notin> set s \<Longrightarrow> split_on c s = [s]"
  by (induction s) auto


lemma path_name_single:
  assumes "n \<noteq> []" and "n \<noteq> ''.''" and "CHR ''/'' \<notin> set n"
  shows "path_name n = n"
  using assms by (simp add: path_name_def path_parts_def split_on_no_sep)


lemma tmp_path_of_single:
  assumes "n \<noteq> []" and "n \<noteq> ''.''" and "CHR ''/'' \<notin> set n"
  shows "tmp_path_of n = ''/tmp/'' @ n"
  using assms by (simp add: tmp_path_of_def path_join_def path_name_single)


lemma strftime_Ymd_no_slash: "CHR ''/'' \<notin> set (strftime_Ymd t)"
  using strftime_digits[of t] by (auto simp: strftime_Ymd_def)

lemma dated_name_ok:
  "''sd3_'' @ strftime_Ymd t @ ''.png'' \<noteq> []"
  "''sd3_'' @ strftime_Ymd t @ ''.png'' \<noteq> ''.''"
  "CHR ''/'' \<notin> set (''sd3_'' @ strftime_Ymd t @ ''.png'')"
  using strftime_Ymd_no_slash[of t] by simp_all

lemma tmp_path_of_flat:
  "tmp_path_of (fst (create_filename_with_date env ''sd3'' w))
     = ''/tmp/sd3_'' @ strftime_Ymd (clock env (ticks w)) @ ''.png''"
  using tmp_path_of_single[OF dated_name_ok[of "clock env (ticks w)"]]
  by (simp add: create_filename_with_date_eq)



lemma provider_except_fs:
  "fs (snd (provider_except e w)) = fs w"
  "upload_calls (snd (provider_except e w)) = upload_calls w"
  by (simp_all add: provider_except_def Let_def log_error_def)

lemma generate_fs:
  "fs (snd (generate_image_with_replicate env p st g s wd ht f w)) = fs w"
  "upload_calls (snd (generate_image_with_replicate env p st g s wd ht f w)) = upload_calls w"
  by (simp_all add: generate_image_with_replicate_def Let_def log_info_def provider_except_fs
      split: sum.split)

lemma add_metadata_to_image_snd:
  "snd (add_metadata_to_image env img p st g s w) = w\<lparr>ticks := Suc (ticks w)\<rparr>"
  by (simp add: add_metadata_to_image_def Let_def now_def)

lemma add_metadata_to_image_img:
  "fst (fst (add_metadata_to_image env img p st g s w)) = img"
  by (simp add: add_metadata_to_image_def Let_def now_def)

lemma determine_s3_key_fs:
  "fs (snd (determine_s3_key env args w)) = fs w"
  "upload_calls (snd (determine_s3_key env args w)) = upload_calls w"
  by (simp_all add: determine_s3_key_def Let_def create_s3_key_organized_eq
      create_filename_with_date_eq split: option.split)

lemma upload_to_s3_fs:
  "fs (snd (upload_to_s3 env lp b k p st g s r pub w)) = fs w"
  by (simp add: upload_to_s3_def Let_def now_def log_info_def log_error_def
      split: option.split)

lemma upload_to_s3_fail:
  assumes "boto3_client env region = None"
    and "upload_file env local_path bucket key
           \<lparr>ContentType = ''image/png'',
            Metadata = s3_metadata_of env prompt steps guidance seed (clock env (ticks w)),
            CacheControl = ''public, max-age=31536000''\<rparr> = Some e"
  shows "fst (upload_to_s3 env local_path bucket key prompt steps guidance seed region
                  public w) = Inl e"
  using assms by (simp add: upload_to_s3_def Let_def now_def)


lemma main_body_upload_step:
  assumes tok: "get_replicate_token env = Inr tok"
    and gen: "generate_image_with_replicate env (arg_prompt args) (arg_steps args)
                (arg_guidance args) (arg_seed args) (arg_width args) (arg_height args) ''png''
                (log_info w ([CHR 0xE2, CHR 0x9C, CHR 0x93] @ '' Replicate token found''))
              = (Inr img, w2)"
    and key: "determine_s3_key env args (w2\<lparr>ticks := Suc (ticks w2)\<rparr>) = (s3_key, w4)"
    and save: "image_save env (tmp_path_of s3_key) = None"
    and up: "upload_to_s3 env (tmp_path_of s3_key) bucket s3_key (arg_prompt args)
               (arg_steps args) (arg_guidance args) (arg_seed args) (arg_region args)
               (arg_public args)
               (log_info (w4\<lparr>fs := (fs w4)(tmp_path_of s3_key \<mapsto>
                    fst (add_metadata_to_image env img (arg_prompt args) (arg_steps args)
                          (arg_guidance args) (arg_seed args) w2))\<rparr>)
                  (''Image saved temporarily to '' @ tmp_path_of s3_key))
             = (r, w7)"
  shows "main_body env args bucket w =
           (case r of
              Inl e \<Rightarrow> (Inl e, w7)
            | Inr result \<Rightarrow>
                (Inr result, log_info (w7\<lparr>fs := (fs w7)(tmp_path_of s3_key := None)\<rparr>)
                               ''Temporary file deleted''))"
    and "fs w7 = (fs w)(tmp_path_of s3_key \<mapsto>
                    fst (add_metadata_to_image env img (arg_prompt args) (arg_steps args)
                          (arg_guidance args) (arg_seed args) w2))"
proof -
  let ?tp = "tmp_path_of s3_key"
  let ?M = "add_metadata_to_image env img (arg_prompt args) (arg_steps args)
              (arg_guidance args) (arg_seed args) w2"
  have m: "?M = (fst ?M, w2\<lparr>ticks := Suc (ticks w2)\<rparr>)"
    using add_metadata_to_image_snd[of env img "arg_prompt args" "arg_steps args"
        "arg_guidance args" "arg_seed args" w2]
    by (metis prod.collapse)
  have f2: "fs w2 = fs w"
    using generate_fs(1)[of env "arg_prompt args" "arg_steps args" "arg_guidance args"
        "arg_seed args" "arg_width args" "arg_height args" "''png''"
        "log_info w ([CHR 0xE2, CHR 0x9C, CHR 0x93] @ '' Replicate token found'')"]
    unfolding gen by (simp add: log_info_def)
  have f4: "fs w4 = fs w"
    using determine_s3_key_fs(1)[of env args "w2\<lparr>ticks := Suc (ticks w2)\<rparr>"]
    unfolding key by (simp add: f2)
  show f7: "fs w7 = (fs w)(?tp \<mapsto> fst ?M)"
    using upload_to_s3_fs[of env ?tp bucket s3_key "arg_prompt args" "arg_steps args"
        "arg_guidance args" "arg_seed args" "arg_region args" "arg_public args"
        "log_info (w4\<lparr>fs := (fs w4)(?tp \<mapsto> fst ?M)\<rparr>)
           (''Image saved temporarily to '' @ ?tp)"]
    unfolding up by (simp add: log_info_def f4)
  have ex: "fs w7 ?tp \<noteq> None" unfolding f7 by simp
  obtain i pm where ipm: "fst ?M = (i, pm)" by (cases "fst ?M") auto
  have m': "?M = ((i, pm), w2\<lparr>ticks := Suc (ticks w2)\<rparr>)"
    using m ipm by simp
  show "main_body env args bucket w =
           (case r of
              Inl e \<Rightarrow> (Inl e, w7)
            | Inr result \<Rightarrow>
                (Inr result, log_info (w7\<lparr>fs := (fs w7)(?tp := None)\<rparr>)
                               ''Temporary file deleted''))"
    using ex up[unfolded ipm] tok gen m' key save
    by (simp add: main_body_def Let_def unlink_def split: sum.split)
qed




lemma demo_image_save: "image_save (demo_env out got up) p = None"
  by (simp add: demo_env_def)

lemma demo_generate:
  "generate_image_with_replicate (demo_env (Inr (Readable (Inr d))) got up) p st g s wd ht f w
     = (Inr d, snd (generate_image_with_replicate (demo_env (Inr (Readable (Inr d))) got up)
                      p st g s wd ht f w))"
proof -
  have "fst (generate_image_with_replicate (demo_env (Inr (Readable (Inr d))) got up)
               p st g s wd ht f w) = Inr d"
    by (rule generate_success[OF demo_token demo_client_run demo_normalize_readable])
  then show ?thesis by (metis prod.collapse)
qed

lemma demo_args_key: "arg_key demo_args = None \<or> arg_key demo_args = Some []"
  "\<not> arg_organized demo_args"
  by (simp_all add: demo_args_def)

lemma demo_determine_s3_key:
  "determine_s3_key (demo_env out got up) demo_args w
     = (''sd3_2025-10-13.png'', snd (determine_s3_key (demo_env out got up) demo_args w))"
  using demo_key_flat[OF demo_args_key, of out got up w]
  by (metis prod.collapse)

lemma demo_tmp_path: "tmp_path_of ''sd3_2025-10-13.png'' = ''/tmp/sd3_2025-10-13.png''"
  by (rule tmp_path_of_single[of "''sd3_2025-10-13.png''", simplified])

lemma main_with_bucket:
  assumes "arg_bucket args = Some bucket" and "bucket \<noteq> []"
  shows "\<exists>w0. fs w0 = fs w \<and> upload_calls w0 = upload_calls w \<and>
           main env args w =
             (case main_body env args bucket w0 of
                (Inr result, w3) \<Rightarrow> (0, w3)
              | (Inl e, w3) \<Rightarrow>
                  if exc_cls e = KeyboardInterrupt then (130, log_info w3 ''Interrupted by user'')
                  else (1, log_error w3 (''Fatal error: '' @ exc_msg e)))"
proof -
  let ?w1 = "log_info w (''Using bucket: '' @ bucket)"
  let ?w2 = "if arg_region args = None \<or> arg_region args = Some [] then
               log_info ?w1
                 ''No region via args/env; will fall back to eu-central-1 inside S3 client''
             else ?w1"
  have "fs ?w2 = fs w" "upload_calls ?w2 = upload_calls w" by (simp_all add: log_info_def)
  moreover have "main env args w =
             (case main_body env args bucket ?w2 of
                (Inr result, w3) \<Rightarrow> (0, w3)
              | (Inl e, w3) \<Rightarrow>
                  if exc_cls e = KeyboardInterrupt then (130, log_info w3 ''Interrupted by user'')
                  else (1, log_error w3 (''Fatal error: '' @ exc_msg e)))"
    using assms by (simp add: main_def Let_def)
  ultimately show ?thesis by blast
qed

lemma demo_main_body:
  "main_body (demo_env (Inr (Readable (Inr d))) got up) demo_args bucket w = (r, w') \<Longrightarrow>
     (case up of
        None \<Rightarrow> (\<exists>result. r = Inr result) \<and> fs w' ''/tmp/sd3_2025-10-13.png'' = None
      | Some e \<Rightarrow> r = Inl e \<and> fs w' ''/tmp/sd3_2025-10-13.png'' \<noteq> None)"
proof -
  let ?env = "demo_env (Inr (Readable (Inr d))) got up"
  let ?G = "generate_image_with_replicate ?env (arg_prompt demo_args) (arg_steps demo_args)
      (arg_guidance demo_args) (arg_seed demo_args) (arg_width demo_args)
      (arg_height demo_args) ''png''
      (log_info w ([CHR 0xE2, CHR 0x9C, CHR 0x93] @ '' Replicate token found''))"
  let ?w2 = "snd ?G"
  let ?K = "determine_s3_key ?env demo_args (?w2\<lparr>ticks := Suc (ticks ?w2)\<rparr>)"
  let ?w4 = "snd ?K"
  let ?tp = "tmp_path_of ''sd3_2025-10-13.png''"
  let ?M = "add_metadata_to_image ?env d (arg_prompt demo_args) (arg_steps demo_args)
              (arg_guidance demo_args) (arg_seed demo_args) ?w2"
  let ?w6 = "log_info (?w4\<lparr>fs := (fs ?w4)(?tp \<mapsto> fst ?M)\<rparr>)
               (''Image saved temporarily to '' @ ?tp)"
  let ?U = "upload_to_s3 ?env ?tp bucket ''sd3_2025-10-13.png'' (arg_prompt demo_args)
              (arg_steps demo_args) (arg_guidance demo_args) (arg_seed demo_args)
              (arg_region demo_args) (arg_public demo_args) ?w6"
  assume mb: "main_body ?env demo_args bucket w = (r, w')"
  have up: "?U = (fst ?U, snd ?U)" by simp
  note s = main_body_upload_step[OF demo_token demo_generate demo_determine_s3_key
      demo_image_save up]
  show ?thesis
  proof (cases up)
    case None
    have "\<exists>result. fst ?U = Inr result"
      by (rule upload_to_s3_ok[OF demo_boto3]) (simp add: demo_upload_file None)
    then obtain result where res: "fst ?U = Inr result" ..
    from mb s(1) have "r = Inr result"
      and "w' = log_info ((snd ?U)\<lparr>fs := (fs (snd ?U))(?tp := None)\<rparr>) ''Temporary file deleted''"
      unfolding res by simp_all
    then show ?thesis using None by (simp add: log_info_def demo_tmp_path)
  next
    case (Some e)
    have f: "fst ?U = Inl e"
      by (rule upload_to_s3_fail[OF demo_boto3]) (simp add: demo_upload_file Some)
    from mb s(1) have "r = Inl e" and "w' = snd ?U" unfolding f by simp_all
    then show ?thesis using Some s(2) by (simp add: demo_tmp_path)
  qed
qed

lemma demo_main:
  "fst (main (demo_env (Inr (Readable (Inr d))) got up) demo_args demo_world)
     = (case up of None \<Rightarrow> 0 | Some e \<Rightarrow> if exc_cls e = KeyboardInterrupt then 130 else 1)"
  "(fs (snd (main (demo_env (Inr (Readable (Inr d))) got up) demo_args demo_world))
      ''/tmp/sd3_2025-10-13.png'' = None) = (up = None)"
proof -
  let ?env = "demo_env (Inr (Readable (Inr d))) got up"
  have b: "arg_bucket demo_args = Some ''my-bucket''" "''my-bucket'' \<noteq> []"
    by (simp_all add: demo_args_def)
  obtain w0 where m: "main ?env demo_args demo_world =
             (case main_body ?env demo_args ''my-bucket'' w0 of
                (Inr result, w3) \<Rightarrow> (0, w3)
              | (Inl e, w3) \<Rightarrow>
                  if exc_cls e = KeyboardInterrupt then (130, log_info w3 ''Interrupted by user'')
                  else (1, log_error w3 (''Fatal error: '' @ exc_msg e)))"
    using main_with_bucket[OF b, of demo_world ?env] by blast
  obtain r w' where mb: "main_body ?env demo_args ''my-bucket'' w0 = (r, w')"
    by (cases "main_body ?env demo_args ''my-bucket'' w0") auto
  note d = demo_main_body[OF mb]
  show "fst (main ?env demo_args demo_world)
     = (case up of None \<Rightarrow> 0 | Some e \<Rightarrow> if exc_cls e = KeyboardInterrupt then 130 else 1)"
    using d unfolding m mb by (cases up) auto
  show "(fs (snd (main ?env demo_args demo_world)) ''/tmp/sd3_2025-10-13.png'' = None)
          = (up = None)"
    using d unfolding m mb by (cases up) (auto simp: log_info_def log_error_def)
qed

text \<open>
  Claim C1, evaluated. The run with the default arguments on 2025-10-13 saves the image
  as \<^verbatim>\<open>/tmp/sd3_2025-10-13.png\<close>. When \<^verbatim>\<open>upload_file\<close> raises \<^verbatim>\<open>ClientError\<close> the command
  exits with status 1 and that file is still there: \<^verbatim>\<open>tmp_path.unlink()\<close> stands after the
  upload call inside the \<^verbatim>\<open>try\<close> block and is skipped by the exception. When the upload
  succeeds the command exits with status 0 and the file is gone.
\<close>

theorem failed_upload_leaves_temporary_file:
  "fst (main (demo_env (Inr (Readable (Inr [1, 2, 3]))) demo_response
               (Some (Exc (ClientError ''NoSuchBucket'') ''The specified bucket does not exist'')))
          demo_args demo_world) = 1
   \<and> fs (snd (main (demo_env (Inr (Readable (Inr [1, 2, 3]))) demo_response
               (Some (Exc (ClientError ''NoSuchBucket'') ''The specified bucket does not exist'')))
          demo_args demo_world)) ''/tmp/sd3_2025-10-13.png'' \<noteq> None
   \<and> fst (main (demo_env (Inr (Readable (Inr [1, 2, 3]))) demo_response None)
          demo_args demo_world) = 0
   \<and> fs (snd (main (demo_env (Inr (Readable (Inr [1, 2, 3]))) demo_response None)
          demo_args demo_world)) ''/tmp/sd3_2025-10-13.png'' = None"
  using demo_main[of "[1, 2, 3]" demo_response
      "Some (Exc (ClientError ''NoSuchBucket'') ''The specified bucket does not exist'')"]
    demo_main[of "[1, 2, 3]" demo_response None]
  by simp




subsection \<open>The job description sent to the provider\<close>

text \<open>
  Claim C3. For positive width and height the job description holds the prompt verbatim,
  the guidance under the key \<^verbatim>\<open>cfg\<close>, the output format, the seed exactly when a seed
  is given, and the aspect-ratio string exactly when that string is not \<^verbatim>\<open>1:1\<close>, and no
  other key. The string is \<open>width div g : height div g\<close> for the greatest common divisor
  \<open>g\<close>, so its two numbers are coprime, it is \<^verbatim>\<open>1:1\<close> exactly for a square image, and
  dividing both dimensions by a positive common divisor does not change it. With a token
  present, \<^verbatim>\<open>generate_image_with_replicate\<close> makes one call to the provider, for the
  model identifier and with exactly this job description, and its outcome is that of the
  call: the decoded image when the answer decodes, an exception when the call raises one.
  Without a token nothing is sent.
\<close>

theorem job_description_contents:
  assumes "0 < width" and "0 < height"
  shows "build_inputs prompt guidance seed width height fmt ''prompt'' = Some (PStr prompt)
    \<and> build_inputs prompt guidance seed width height fmt ''cfg'' = Some (PFloat guidance)
    \<and> build_inputs prompt guidance seed width height fmt ''output_format'' = Some (PStr fmt)
    \<and> build_inputs prompt guidance seed width height fmt ''seed'' = map_option PInt seed
    \<and> build_inputs prompt guidance seed width height fmt ''aspect_ratio'' =
        (if aspect_ratio width height = ''1:1'' then None
         else Some (PStr (aspect_ratio width height)))
    \<and> dom (build_inputs prompt guidance seed width height fmt) =
        {''prompt'', ''cfg'', ''output_format''}
          \<union> (if seed = None then {} else {''seed''})
          \<union> (if aspect_ratio width height = ''1:1'' then {} else {''aspect_ratio''})
    \<and> aspect_ratio width height =
        str_int (width div gcd width height) @ '':'' @ str_int (height div gcd width height)
    \<and> coprime (width div gcd width height) (height div gcd width height)
    \<and> (aspect_ratio width height = ''1:1'' \<longleftrightarrow> width = height)
    \<and> (\<forall>k. 0 < k \<and> k dvd width \<and> k dvd height \<longrightarrow>
          aspect_ratio width height = aspect_ratio (width div k) (height div k))
    \<and> (\<forall>tok. get_replicate_token env = Inr tok \<longrightarrow>
          provider_calls (snd (generate_image_with_replicate env prompt steps guidance seed
             width height fmt w))
            = provider_calls w @ [(MODEL_ID, build_inputs prompt guidance seed width height fmt)]
          \<and> (\<forall>out img.
                client_run env MODEL_ID (build_inputs prompt guidance seed width height fmt)
                  = Inr out \<and> normalize_response env out = Inr img \<longrightarrow>
                fst (generate_image_with_replicate env prompt steps guidance seed
                       width height fmt w) = Inr img)
          \<and> (\<forall>e. client_run env MODEL_ID (build_inputs prompt guidance seed width height fmt)
                  = Inl e \<longrightarrow>
                (\<exists>e'. fst (generate_image_with_replicate env prompt steps guidance seed
                       width height fmt w) = Inl e')))
    \<and> (\<forall>e. get_replicate_token env = Inl e \<longrightarrow>
          generate_image_with_replicate env prompt steps guidance seed width height fmt w
            = (Inl e, w))"
proof -
  have d: "dom (build_inputs prompt guidance seed width height fmt) =
        {''prompt'', ''cfg'', ''output_format''}
          \<union> (if seed = None then {} else {''seed''})
          \<union> (if aspect_ratio width height = ''1:1'' then {} else {''aspect_ratio''})"
    unfolding build_inputs_dom by (cases seed) simp_all
  have r: "\<forall>k. 0 < k \<and> k dvd width \<and> k dvd height \<longrightarrow>
          aspect_ratio width height = aspect_ratio (width div k) (height div k)"
    using aspect_ratio_reduce[OF assms] by blast
  have contents: "build_inputs prompt guidance seed width height fmt ''prompt'' = Some (PStr prompt)
    \<and> build_inputs prompt guidance seed width height fmt ''cfg'' = Some (PFloat guidance)
    \<and> build_inputs prompt guidance seed width height fmt ''output_format'' = Some (PStr fmt)
    \<and> build_inputs prompt guidance seed width height fmt ''seed'' = map_option PInt seed
    \<and> build_inputs prompt guidance seed width height fmt ''aspect_ratio'' =
        (if aspect_ratio width height = ''1:1'' then None
         else Some (PStr (aspect_ratio width height)))
    \<and> dom (build_inputs prompt guidance seed width height fmt) =
        {''prompt'', ''cfg'', ''output_format''}
          \<union> (if seed = None then {} else {''seed''})
          \<union> (if aspect_ratio width height = ''1:1'' then {} else {''aspect_ratio''})
    \<and> aspect_ratio width height =
        str_int (width div gcd width height) @ '':'' @ str_int (height div gcd width height)
    \<and> coprime (width div gcd width height) (height div gcd width height)
    \<and> (aspect_ratio width height = ''1:1'' \<longleftrightarrow> width = height)
    \<and> (\<forall>k. 0 < k \<and> k dvd width \<and> k dvd height \<longrightarrow>
          aspect_ratio width height = aspect_ratio (width div k) (height div k))"
    using d r aspect_ratio_pos[OF assms] aspect_ratio_coprime[OF assms]
      aspect_ratio_11_iff[OF assms]
    unfolding build_inputs_prompt build_inputs_cfg build_inputs_output_format
      build_inputs_seed build_inputs_aspect_ratio
    by blast
  have sent: "\<forall>tok. get_replicate_token env = Inr tok \<longrightarrow>
          provider_calls (snd (generate_image_with_replicate env prompt steps guidance seed
             width height fmt w))
            = provider_calls w @ [(MODEL_ID, build_inputs prompt guidance seed width height fmt)]
          \<and> (\<forall>out img.
                client_run env MODEL_ID (build_inputs prompt guidance seed width height fmt)
                  = Inr out \<and> normalize_response env out = Inr img \<longrightarrow>
                fst (generate_image_with_replicate env prompt steps guidance seed
                       width height fmt w) = Inr img)
          \<and> (\<forall>e. client_run env MODEL_ID (build_inputs prompt guidance seed width height fmt)
                  = Inl e \<longrightarrow>
                (\<exists>e'. fst (generate_image_with_replicate env prompt steps guidance seed
                       width height fmt w) = Inl e'))"
  proof (intro allI impI conjI)
    fix tok assume t: "get_replicate_token env = Inr tok"
    show "provider_calls (snd (generate_image_with_replicate env prompt steps guidance seed
             width height fmt w))
            = provider_calls w @ [(MODEL_ID, build_inputs prompt guidance seed width height fmt)]"
      by (rule generate_provider_calls[OF t])
    show "fst (generate_image_with_replicate env prompt steps guidance seed
                       width height fmt w) = Inr img"
      if "client_run env MODEL_ID (build_inputs prompt guidance seed width height fmt)
                  = Inr out \<and> normalize_response env out = Inr img" for out img
      using that generate_success[OF t] by blast
    show "\<exists>e'. fst (generate_image_with_replicate env prompt steps guidance seed
                       width height fmt w) = Inl e'"
      if "client_run env MODEL_ID (build_inputs prompt guidance seed width height fmt) = Inl e"
      for e
      using t that
      by (simp add: generate_image_with_replicate_def Let_def provider_except_def)
  qed
  have none: "\<forall>e. get_replicate_token env = Inl e \<longrightarrow>
          generate_image_with_replicate env prompt steps guidance seed width height fmt w
            = (Inl e, w)"
    by (simp add: generate_no_token)
  from contents sent none show ?thesis by blast
qed

theorem job_description_contents_witness:
  "(0::int) < 1024 \<and> (0::int) < 768
   \<and> build_inputs ''a red fox'' ''3.5'' (Some 7) 1024 768 ''png'' ''aspect_ratio''
       = Some (PStr ''4:3'')
   \<and> build_inputs ''a red fox'' ''3.5'' (Some 7) 1024 768 ''png'' ''seed'' = Some (PInt 7)
   \<and> (0::int) < 256 \<and> (256::int) dvd 1024 \<and> (256::int) dvd 768
   \<and> aspect_ratio 1024 768 = aspect_ratio (1024 div 256) (768 div 256)
   \<and> get_replicate_token (demo_env (Inr (Readable (Inr [1, 2, 3]))) demo_response None)
       = Inr ''r8_token''
   \<and> map (\<lambda>c. (fst c, snd c ''aspect_ratio'', snd c ''prompt''))
        (provider_calls (snd (generate_image_with_replicate
           (demo_env (Inr (Readable (Inr [1, 2, 3]))) demo_response None)
           ''a red fox'' 28 ''3.5'' (Some 7) 1024 768 ''png'' demo_world)))
       = [(MODEL_ID, Some (PStr ''4:3''), Some (PStr ''a red fox''))]
   \<and> fst (generate_image_with_replicate
           (demo_env (Inr (Readable (Inr [1, 2, 3]))) demo_response None)
           ''a red fox'' 28 ''3.5'' (Some 7) 1024 768 ''png'' demo_world) = Inr [1, 2, 3]
   \<and> get_replicate_token
         ((demo_env (Inr (Readable (Inr [1, 2, 3]))) demo_response None)
            \<lparr>replicate_api_token := None\<rparr>)
       = Inl (Exc ValueError
          ''Replicate API token not found. Set REPLICATE_API_TOKEN in your .env file or environment.'')
   \<and> provider_calls (snd (generate_image_with_replicate
         ((demo_env (Inr (Readable (Inr [1, 2, 3]))) demo_response None)
            \<lparr>replicate_api_token := None\<rparr>)
         ''a red fox'' 28 ''3.5'' (Some 7) 1024 768 ''png'' demo_world)) = []"
proof -
  let ?env = "demo_env (Inr (Readable (Inr [1, 2, 3]))) demo_response None"
  let ?envn = "?env\<lparr>replicate_api_token := None\<rparr>"
  let ?e = "Exc ValueError
     ''Replicate API token not found. Set REPLICATE_API_TOKEN in your .env file or environment.''"
  let ?J = "build_inputs ''a red fox'' ''3.5'' (Some 7) 1024 768 ''png''"
  have a: "aspect_ratio 1024 768 = ''4:3''"
    by (simp add: aspect_ratio_def Let_def gcd_1024_768 str_int_def str_nat.simps digit_char_def)
  have k: "(0::int) < 256 \<and> (256::int) dvd 1024 \<and> (256::int) dvd 768" by simp
  have p: "(0::int) < 1024" "(0::int) < 768" by simp_all
  note t = job_description_contents[where width = 1024 and height = 768
      and prompt = "''a red fox''" and guidance = "''3.5''" and seed = "Some 7"
      and fmt = "''png''" and env = ?env and steps = 28 and w = demo_world, OF p]
  note t0 = job_description_contents[where width = 1024 and height = 768
      and prompt = "''a red fox''" and guidance = "''3.5''" and seed = "Some 7"
      and fmt = "''png''" and env = ?envn and steps = 28 and w = demo_world, OF p]
  have tok: "get_replicate_token ?env = Inr ''r8_token''" by (rule demo_token)
  have tok0: "get_replicate_token ?envn = Inl ?e"
    by (simp add: get_replicate_token_def)
  have cr: "client_run ?env MODEL_ID ?J = Inr (Readable (Inr [1, 2, 3]))"
    by (rule demo_client_run)
  have nr: "normalize_response ?env (Readable (Inr [1, 2, 3])) = Inr [1, 2, 3]"
    by (rule demo_normalize_readable)
  from t have 1: "?J ''aspect_ratio''
       = (if aspect_ratio 1024 768 = ''1:1'' then None else Some (PStr (aspect_ratio 1024 768)))"
    by blast
  from t have 2: "?J ''seed'' = map_option PInt (Some 7)"
    by blast
  from t have pr: "?J ''prompt'' = Some (PStr ''a red fox'')"
    by blast
  from t have "\<forall>k. 0 < k \<and> k dvd 1024 \<and> k dvd 768 \<longrightarrow>
          aspect_ratio 1024 768 = aspect_ratio (1024 div k) (768 div k)"
    by blast
  with k have 3: "aspect_ratio 1024 768 = aspect_ratio (1024 div 256) (768 div 256)"
    by blast
  from t tok have 4: "provider_calls (snd (generate_image_with_replicate ?env
           ''a red fox'' 28 ''3.5'' (Some 7) 1024 768 ''png'' demo_world))
      = provider_calls demo_world @ [(MODEL_ID, ?J)]"
    by blast
  from t tok cr nr have 5: "fst (generate_image_with_replicate ?env
           ''a red fox'' 28 ''3.5'' (Some 7) 1024 768 ''png'' demo_world) = Inr [1, 2, 3]"
    by blast
  from t0 tok0 have 6: "generate_image_with_replicate ?envn
           ''a red fox'' 28 ''3.5'' (Some 7) 1024 768 ''png'' demo_world = (Inl ?e, demo_world)"
    by blast
  have dw: "provider_calls demo_world = []" by (simp add: demo_world_def)
  show ?thesis
    unfolding 4 5 6 dw
    using 1[unfolded a] 2 pr 3[unfolded a, symmetric] k tok tok0 unfolding a by (simp add: dw)
qed

subsection \<open>Response normalization, every shape\<close>

lemma normalize_url_status_error:
  assumes "requests_get env url = Inr r" and "raise_for_status r = Some e"
  shows "normalize_response env (PyStr url) = Inl e"
  using assms by (simp add: normalize_response_def first_or_self_def read_payload_def)

lemma normalize_url_get_fails:
  assumes "requests_get env url = Inl e"
  shows "normalize_response env (PyStr url) = Inl e"
  using assms by (simp add: normalize_response_def first_or_self_def read_payload_def)

lemma normalize_read_fails:
  "normalize_response env (Readable (Inl e)) = Inl e"
  by (simp add: normalize_response_def first_or_self_def read_payload_def)

lemma normalize_list_first:
  assumes "\<forall>ys. x \<noteq> PyList ys"
  shows "normalize_response env (PyList (x # rest)) = normalize_response env x"
  using assms by (cases x) (simp_all add: normalize_response_def first_or_self_def)

text \<open>
  Claim C2, as the code has it. One payload is resolved from the provider's value. A list
  that is not empty stands for its first element, whatever follows it; the empty list is
  an \<^verbatim>\<open>IndexError\<close>. A readable value is read, and an exception of the read is the
  outcome. A string is fetched by GET: a failing request or an error status is the
  outcome, otherwise the body is used. So a bare stream, a list that starts with that
  stream, and a URL (alone or first in a list) whose GET returns the same bytes all decode
  the same bytes. A resolved value that is neither readable nor a string, a list inside a
  list included, is a \<^verbatim>\<open>RuntimeError\<close> whose message holds the name of its type.
\<close>

theorem response_shapes_normalized:
  "normalize_response env (Readable (Inr d)) = image_open env d
   \<and> normalize_response env (PyList (Readable (Inr d) # rest)) = image_open env d
   \<and> (requests_get env url = Inr r \<and> raise_for_status r = None \<and> content r = d \<longrightarrow>
        normalize_response env (PyStr url) = image_open env d
        \<and> normalize_response env (PyList (PyStr url # rest)) = image_open env d)
   \<and> normalize_response env (Other ty) = Inl (unexpected_output ty)
   \<and> normalize_response env (PyList (Other ty # rest)) = Inl (unexpected_output ty)
   \<and> normalize_response env (PyList (PyList ys # rest)) = Inl (unexpected_output ''list'')
   \<and> exc_cls (unexpected_output ty) = RuntimeError
   \<and> sublist ty (exc_msg (unexpected_output ty))
   \<and> (\<forall>e. requests_get env url = Inr r \<and> raise_for_status r = Some e \<longrightarrow>
        normalize_response env (PyStr url) = Inl e
        \<and> normalize_response env (PyList (PyStr url # rest)) = Inl e)
   \<and> (\<forall>e. requests_get env url = Inl e \<longrightarrow>
        normalize_response env (PyStr url) = Inl e
        \<and> normalize_response env (PyList (PyStr url # rest)) = Inl e)
   \<and> (\<forall>e. normalize_response env (Readable (Inl e)) = Inl e
        \<and> normalize_response env (PyList (Readable (Inl e) # rest)) = Inl e)
   \<and> ((\<forall>zs. x \<noteq> PyList zs) \<longrightarrow>
        normalize_response env (PyList (x # rest)) = normalize_response env x)
   \<and> normalize_response env (PyList []) = Inl (Exc IndexError ''list index out of range'')"
proof -
  have old: "normalize_response env (Readable (Inr d)) = image_open env d
   \<and> normalize_response env (PyList (Readable (Inr d) # rest)) = image_open env d
   \<and> (requests_get env url = Inr r \<and> raise_for_status r = None \<and> content r = d \<longrightarrow>
        normalize_response env (PyStr url) = image_open env d
        \<and> normalize_response env (PyList (PyStr url # rest)) = image_open env d)
   \<and> normalize_response env (Other ty) = Inl (unexpected_output ty)
   \<and> normalize_response env (PyList (Other ty # rest)) = Inl (unexpected_output ty)
   \<and> normalize_response env (PyList (PyList ys # rest)) = Inl (unexpected_output ''list'')
   \<and> exc_cls (unexpected_output ty) = RuntimeError
   \<and> sublist ty (exc_msg (unexpected_output ty))"
    using normalize_url[of env url r] normalize_list_url[of env url r rest]
      unexpected_output_reports[of ty]
    by (auto simp: normalize_readable normalize_list_readable normalize_other
        normalize_list_other normalize_list_list)
  have l: "normalize_response env (PyList (PyStr url # rest)) = normalize_response env (PyStr url)"
    "\<And>e. normalize_response env (PyList (Readable (Inl e) # rest))
            = normalize_response env (Readable (Inl e))"
    by (simp_all add: normalize_list_first)
  have st: "\<forall>e. requests_get env url = Inr r \<and> raise_for_status r = Some e \<longrightarrow>
        normalize_response env (PyStr url) = Inl e
        \<and> normalize_response env (PyList (PyStr url # rest)) = Inl e"
    unfolding l using normalize_url_status_error[of env url r] by blast
  have gf: "\<forall>e. requests_get env url = Inl e \<longrightarrow>
        normalize_response env (PyStr url) = Inl e
        \<and> normalize_response env (PyList (PyStr url # rest)) = Inl e"
    unfolding l using normalize_url_get_fails[of env url] by blast
  have rf: "\<forall>e. normalize_response env (Readable (Inl e)) = Inl e
        \<and> normalize_response env (PyList (Readable (Inl e) # rest)) = Inl e"
    unfolding l by (simp add: normalize_read_fails)
  have fi: "(\<forall>zs. x \<noteq> PyList zs) \<longrightarrow>
        normalize_response env (PyList (x # rest)) = normalize_response env x"
    using normalize_list_first[of x env rest] by blast
  from old st gf rf fi normalize_empty_list[of env] show ?thesis by blast
qed

theorem response_shapes_normalized_witness:
  "requests_get (demo_env (Inr (PyStr ''https://host/out.png'')) demo_response None)
       ''https://host/out.png'' = Inr \<lparr>status_error = None, content = [1, 2, 3]\<rparr>
   \<and> raise_for_status \<lparr>status_error = None, content = [1, 2, 3]\<rparr> = None
   \<and> content \<lparr>status_error = None, content = [1, 2, 3]\<rparr> = [1, 2, 3]
   \<and> normalize_response (demo_env (Inr (PyStr ''https://host/out.png'')) demo_response None)
        (PyStr ''https://host/out.png'') = Inr [1, 2, 3]
   \<and> normalize_response (demo_env (Inr (PyStr ''https://host/out.png'')) demo_response None)
        (Readable (Inr [1, 2, 3])) = Inr [1, 2, 3]
   \<and> normalize_response (demo_env (Inr (PyStr ''https://host/out.png'')) demo_response None)
        (PyList [Readable (Inr [1, 2, 3])]) = Inr [1, 2, 3]
   \<and> requests_get
        (demo_env (Inr (PyStr ''https://host/out.png''))
           (Inr \<lparr>status_error = Some (demo_error ''403 Client Error: Forbidden''),
                 content = []\<rparr>) None)
        ''https://host/out.png''
       = Inr \<lparr>status_error = Some (demo_error ''403 Client Error: Forbidden''), content = []\<rparr>
   \<and> raise_for_status
        \<lparr>status_error = Some (demo_error ''403 Client Error: Forbidden''), content = []\<rparr>
       = Some (demo_error ''403 Client Error: Forbidden'')
   \<and> normalize_response
        (demo_env (Inr (PyStr ''https://host/out.png''))
           (Inr \<lparr>status_error = Some (demo_error ''403 Client Error: Forbidden''),
                 content = []\<rparr>) None)
        (PyStr ''https://host/out.png'') = Inl (demo_error ''403 Client Error: Forbidden'')
   \<and> requests_get
        (demo_env (Inr (PyStr ''https://host/out.png''))
           (Inl (demo_error ''connection refused'')) None)
        ''https://host/out.png'' = Inl (demo_error ''connection refused'')
   \<and> normalize_response
        (demo_env (Inr (PyStr ''https://host/out.png''))
           (Inl (demo_error ''connection refused'')) None)
        (PyStr ''https://host/out.png'') = Inl (demo_error ''connection refused'')
   \<and> normalize_response (demo_env (Inr (PyStr ''https://host/out.png'')) demo_response None)
        (PyList [PyStr ''https://host/out.png'', Other ''dict'']) = Inr [1, 2, 3]"
proof -
  let ?env = "demo_env (Inr (PyStr ''https://host/out.png'')) demo_response None"
  let ?r = "\<lparr>status_error = None, content = [1, 2, 3]\<rparr>"
  let ?rb = "\<lparr>status_error = Some (demo_error ''403 Client Error: Forbidden''), content = []\<rparr>"
  let ?envb = "demo_env (Inr (PyStr ''https://host/out.png'')) (Inr ?rb) None"
  let ?envc = "demo_env (Inr (PyStr ''https://host/out.png''))
                 (Inl (demo_error ''connection refused'')) None"
  note t = response_shapes_normalized[where env = ?env and d = "[1, 2, 3]" and rest = "[]"
      and url = "''https://host/out.png''" and r = ?r and ty = "''dict''" and ys = "[]"
      and x = "PyStr ''https://host/out.png''"]
  note t2 = response_shapes_normalized[where env = ?env and d = "[1, 2, 3]"
      and rest = "[Other ''dict'']"
      and url = "''https://host/out.png''" and r = ?r and ty = "''dict''" and ys = "[]"
      and x = "PyStr ''https://host/out.png''"]
  note tb = response_shapes_normalized[where env = ?envb and d = "[1, 2, 3]" and rest = "[]"
      and url = "''https://host/out.png''" and r = ?rb and ty = "''dict''" and ys = "[]"
      and x = "PyStr ''https://host/out.png''"]
  note tc = response_shapes_normalized[where env = ?envc and d = "[1, 2, 3]" and rest = "[]"
      and url = "''https://host/out.png''" and r = ?r and ty = "''dict''" and ys = "[]"
      and x = "PyStr ''https://host/out.png''"]
  have g: "requests_get ?env ''https://host/out.png'' = Inr ?r"
    by (simp add: demo_requests_get demo_response_def)
  have s: "raise_for_status ?r = None" by (simp add: raise_for_status_def)
  have c: "content ?r = [1, 2, 3]" by simp
  have gb: "requests_get ?envb ''https://host/out.png'' = Inr ?rb"
    by (rule demo_requests_get)
  have sb: "raise_for_status ?rb = Some (demo_error ''403 Client Error: Forbidden'')"
    by (simp add: raise_for_status_def)
  have gc: "requests_get ?envc ''https://host/out.png'' = Inl (demo_error ''connection refused'')"
    by (rule demo_requests_get)
  have nl: "\<forall>zs. PyStr ''https://host/out.png'' \<noteq> PyList zs" by simp
  from t g s c have 1: "normalize_response ?env (PyStr ''https://host/out.png'')
      = image_open ?env [1, 2, 3]" by blast
  from t have 2: "normalize_response ?env (Readable (Inr [1, 2, 3])) = image_open ?env [1, 2, 3]"
    and 3: "normalize_response ?env (PyList [Readable (Inr [1, 2, 3])]) = image_open ?env [1, 2, 3]"
    by blast+
  from tb gb sb have 4: "normalize_response ?envb (PyStr ''https://host/out.png'')
      = Inl (demo_error ''403 Client Error: Forbidden'')" by blast
  from tc gc have 5: "normalize_response ?envc (PyStr ''https://host/out.png'')
      = Inl (demo_error ''connection refused'')" by blast
  from t2 nl have 6: "normalize_response ?env (PyList [PyStr ''https://host/out.png'', Other ''dict''])
      = normalize_response ?env (PyStr ''https://host/out.png'')" by blast
  show ?thesis
    using g s c 1 2 3 gb sb 4 gc 5 6 unfolding demo_image_open by simp
qed

subsection \<open>Provider errors by the text of the exception\<close>

lemma msg_unauthorized:
  "\<not> sublist ''404'' ''You are Unauthorized to run this model''"
  "\<not> sublist ''401'' ''You are Unauthorized to run this model''"
  "sublist ''unauthorized'' (lower ''You are Unauthorized to run this model'')"
  by code_simp+

lemma msg_422:
  "\<not> sublist ''404'' ''status: 422 detail: request 40112 rejected''"
  "sublist ''401'' ''status: 422 detail: request 40112 rejected''"
  by code_simp+

lemma msg_401_trace: "sublist ''404'' ''status: 401 detail: Unauthenticated (trace 4048)''"
  by code_simp

text \<open>
  The classes are read off the text of the exception, so they are not the HTTP classes of
  the claim. An error of status 422 whose text holds the digits \<^verbatim>\<open>40112\<close> is not raised
  again unchanged: a \<^verbatim>\<open>ValueError\<close> about the token takes its place. An error of status
  401 whose text also holds \<^verbatim>\<open>404\<close> is raised again as it is, with the model hint, and
  not as invalid credentials.
\<close>

theorem substring_match_counterexample:
  "fst (generate_image_with_replicate
          (demo_env (Inl (demo_error ''status: 422 detail: request 40112 rejected''))
             demo_response None)
          ''a red fox'' 28 ''3.5'' None 1024 1024 ''png'' demo_world)
     = Inl (Exc ValueError ''Invalid Replicate token (REPLICATE_API_TOKEN).'')
   \<and> fst (generate_image_with_replicate
          (demo_env (Inl (demo_error ''status: 401 detail: Unauthenticated (trace 4048)''))
             demo_response None)
          ''a red fox'' 28 ''3.5'' None 1024 1024 ''png'' demo_world)
     = Inl (demo_error ''status: 401 detail: Unauthenticated (trace 4048)'')"
proof -
  let ?a = "demo_error ''status: 422 detail: request 40112 rejected''"
  let ?b = "demo_error ''status: 401 detail: Unauthenticated (trace 4048)''"
  have ha: "\<not> sublist ''404'' (exc_msg ?a)"
    "sublist ''401'' (exc_msg ?a) \<or> sublist ''unauthorized'' (lower (exc_msg ?a))"
    unfolding demo_error_sel using msg_422 by simp_all
  have hb: "sublist ''404'' (exc_msg ?b)"
    unfolding demo_error_sel by (rule msg_401_trace)
  have 1: "fst (generate_image_with_replicate (demo_env (Inl ?a) demo_response None)
          ''a red fox'' 28 ''3.5'' None 1024 1024 ''png'' demo_world)
     = Inl (Exc ValueError ''Invalid Replicate token (REPLICATE_API_TOKEN).'')"
    unfolding generate_provider_error[OF demo_token demo_client_run demo_error_sel(2)]
      provider_except_401[OF ha]
    by simp
  have 2: "fst (generate_image_with_replicate (demo_env (Inl ?b) demo_response None)
          ''a red fox'' 28 ''3.5'' None 1024 1024 ''png'' demo_world) = Inl ?b"
    unfolding generate_provider_error[OF demo_token demo_client_run demo_error_sel(2)]
    by (rule provider_except_404(1)[OF hb])
  from 1 2 show ?thesis by simp
qed

theorem provider_errors_classified_witness:
  "get_replicate_token
      (demo_env (Inl (demo_error ''status: 404 detail: not found'')) demo_response None)
     = Inr ''r8_token''
   \<and> client_run (demo_env (Inl (demo_error ''status: 404 detail: not found'')) demo_response None)
       MODEL_ID (build_inputs ''a red fox'' ''3.5'' None 1024 1024 ''png'')
     = Inl (demo_error ''status: 404 detail: not found'')
   \<and> is_Exception (demo_error ''status: 404 detail: not found'')
   \<and> sublist ''404'' (exc_msg (demo_error ''status: 404 detail: not found''))
   \<and> fst (generate_image_with_replicate
        (demo_env (Inl (demo_error ''status: 404 detail: not found'')) demo_response None)
        ''a red fox'' 28 ''3.5'' None 1024 1024 ''png'' demo_world)
     = Inl (demo_error ''status: 404 detail: not found'')
   \<and> \<not> sublist ''404'' (exc_msg (demo_error ''status: 401 detail: Unauthenticated''))
   \<and> sublist ''401'' (exc_msg (demo_error ''status: 401 detail: Unauthenticated''))
   \<and> fst (generate_image_with_replicate
        (demo_env (Inl (demo_error ''status: 401 detail: Unauthenticated'')) demo_response None)
        ''a red fox'' 28 ''3.5'' None 1024 1024 ''png'' demo_world)
     = Inl (Exc ValueError ''Invalid Replicate token (REPLICATE_API_TOKEN).'')
   \<and> \<not> sublist ''404'' (exc_msg (demo_error ''status: 500 detail: Internal error''))
   \<and> \<not> sublist ''401'' (exc_msg (demo_error ''status: 500 detail: Internal error''))
   \<and> \<not> sublist ''unauthorized'' (lower (exc_msg (demo_error ''status: 500 detail: Internal error'')))
   \<and> fst (generate_image_with_replicate
        (demo_env (Inl (demo_error ''status: 500 detail: Internal error'')) demo_response None)
        ''a red fox'' 28 ''3.5'' None 1024 1024 ''png'' demo_world)
     = Inl (demo_error ''status: 500 detail: Internal error'')
   \<and> \<not> sublist ''404'' (exc_msg (demo_error ''You are Unauthorized to run this model''))
   \<and> sublist ''unauthorized'' (lower (exc_msg (demo_error ''You are Unauthorized to run this model'')))
   \<and> fst (generate_image_with_replicate
        (demo_env (Inl (demo_error ''You are Unauthorized to run this model'')) demo_response None)
        ''a red fox'' 28 ''3.5'' None 1024 1024 ''png'' demo_world)
     = Inl (Exc ValueError ''Invalid Replicate token (REPLICATE_API_TOKEN).'')"
proof -
  let ?a = "demo_error ''status: 404 detail: not found''"
  let ?b = "demo_error ''status: 401 detail: Unauthenticated''"
  let ?c = "demo_error ''status: 500 detail: Internal error''"
  let ?u = "demo_error ''You are Unauthorized to run this model''"
  note ta = provider_errors_classified[of "demo_env (Inl (demo_error ''status: 404 detail: not found'')) demo_response None"
      "''r8_token''" "''a red fox''" "''3.5''" None 1024 1024 "''png''" "demo_error ''status: 404 detail: not found''" 28
      demo_world, OF demo_token demo_client_run demo_error_sel(2)]
  note tb = provider_errors_classified[of "demo_env (Inl (demo_error ''status: 401 detail: Unauthenticated'')) demo_response None"
      "''r8_token''" "''a red fox''" "''3.5''" None 1024 1024 "''png''" "demo_error ''status: 401 detail: Unauthenticated''" 28
      demo_world, OF demo_token demo_client_run demo_error_sel(2)]
  note tc = provider_errors_classified[of "demo_env (Inl (demo_error ''status: 500 detail: Internal error'')) demo_response None"
      "''r8_token''" "''a red fox''" "''3.5''" None 1024 1024 "''png''" "demo_error ''status: 500 detail: Internal error''" 28
      demo_world, OF demo_token demo_client_run demo_error_sel(2)]
  note tu = provider_errors_classified[of "demo_env (Inl (demo_error ''You are Unauthorized to run this model'')) demo_response None"
      "''r8_token''" "''a red fox''" "''3.5''" None 1024 1024 "''png''" "demo_error ''You are Unauthorized to run this model''" 28
      demo_world, OF demo_token demo_client_run demo_error_sel(2)]
  have hu: "\<not> sublist ''404'' (exc_msg ?u)"
    "sublist ''unauthorized'' (lower (exc_msg ?u))"
    unfolding demo_error_sel by (rule msg_unauthorized)+
  have ha: "sublist ''404'' (exc_msg ?a)"
    unfolding demo_error_sel by (rule msg_404)
  have hb: "\<not> sublist ''404'' (exc_msg ?b)" "sublist ''401'' (exc_msg ?b)"
    unfolding demo_error_sel by (rule msg_401)+
  have hc: "\<not> sublist ''404'' (exc_msg ?c)" "\<not> sublist ''401'' (exc_msg ?c)"
    "\<not> sublist ''unauthorized'' (lower (exc_msg ?c))"
    unfolding demo_error_sel by (rule msg_500)+
  from ta ha have 1: "fst (generate_image_with_replicate (demo_env (Inl ?a) demo_response None)
        ''a red fox'' 28 ''3.5'' None 1024 1024 ''png'' demo_world) = Inl ?a"
    by blast
  from tb hb have 2: "fst (generate_image_with_replicate (demo_env (Inl ?b) demo_response None)
        ''a red fox'' 28 ''3.5'' None 1024 1024 ''png'' demo_world)
      = Inl (Exc ValueError ''Invalid Replicate token (REPLICATE_API_TOKEN).'')"
    by blast
  from tc hc have 3: "fst (generate_image_with_replicate (demo_env (Inl ?c) demo_response None)
        ''a red fox'' 28 ''3.5'' None 1024 1024 ''png'' demo_world) = Inl ?c"
    by blast
  from tu hu have 4: "fst (generate_image_with_replicate (demo_env (Inl ?u) demo_response None)
        ''a red fox'' 28 ''3.5'' None 1024 1024 ''png'' demo_world)
      = Inl (Exc ValueError ''Invalid Replicate token (REPLICATE_API_TOKEN).'')"
    by blast
  show ?thesis
    using demo_token[of "Inl ?a" demo_response None]
      demo_client_run[of "Inl ?a" demo_response None MODEL_ID
        "build_inputs ''a red fox'' ''3.5'' None 1024 1024 ''png''"]
      demo_error_sel(2)[of "''status: 404 detail: not found''"] ha hb hc hu 1 2 3 4
    by blast
qed

end
